theory Spec2Isabelle
  imports Complex_Main "HOL-Library.Word" "HOL-Library.Multiset"
begin

section \<open>The OpenAL loopback example (examples/alloopback.c)\<close>

text \<open>
  The program is a straight line of calls into OpenAL and SDL. The model makes the outside
  world explicit: every value an external call hands back is a field of an environment
  record, every external call the program makes is an event, and a run of \<open>main\<close> is the
  list of its events together with how the process ended.

  Conventions of the embedding:
  \<^item> a pointer is an address (\<open>nat\<close>), \<open>0\<close> being \<open>NULL\<close>;
  \<^item> \<open>int\<close>, \<open>ALCint\<close>, \<open>ALenum\<close> and the boolean result types are mathematical integers:
    the program stores and compares them, the one division is written out with its
    undefined cases;
  \<^item> a local array is a partial map from index to value; an element never written is
    \<open>None\<close>;
  \<^item> \<open>double\<close> arithmetic is idealised as arithmetic on \<open>real\<close>, \<open>sin\<close> as the real sine
    and \<open>M_PI\<close> as \<open>pi\<close>;
  \<^item> the constants of \<open>AL/al.h\<close>, \<open>AL/alc.h\<close>, \<open>AL/alext.h\<close> and \<open>SDL.h\<close> are not
    part of the file: they are the fields of a parameter \<open>K\<close>.
\<close>

subsection \<open>Data\<close>

type_synonym ptr = nat
type_synonym ALuint = "32 word"
type_synonym 'a c_array = "nat \<rightharpoonup> 'a"

text \<open>\<open>typedef struct { ALCdevice *Device; ALCcontext *Context; ALCsizei FrameSize; } PlaybackInfo\<close>\<close>

record PlaybackInfo =
  Device :: ptr
  Context :: ptr
  FrameSize :: int

text \<open>The fields of \<open>SDL_AudioSpec\<close> that the program sets or reads (the callback and its
  user data are the function \<open>RenderSDLSamples\<close> and the address of \<open>playback\<close>).\<close>

record SDL_AudioSpec =
  freq :: int
  format :: "16 word"
  channels :: "8 word"
  samples :: "16 word"
  padding :: "16 word"

text \<open>The header constants the program names, and whether \<open>assert\<close> is compiled out.\<close>

record hdr =
  NDEBUG :: bool
  AL_NO_ERROR :: int
  AL_PLAYING :: int
  AL_BUFFER :: int
  AL_SOURCE_STATE :: int
  AL_FORMAT_MONO16 :: int
  ALC_FALSE :: int
  ALC_FREQUENCY :: int
  ALC_FORMAT_CHANNELS_SOFT :: int
  ALC_FORMAT_TYPE_SOFT :: int
  ALC_MONO_SOFT :: int
  ALC_STEREO_SOFT :: int
  ALC_UNSIGNED_BYTE_SOFT :: int
  ALC_BYTE_SOFT :: int
  ALC_UNSIGNED_SHORT_SOFT :: int
  ALC_SHORT_SOFT :: int
  AUDIO_U8 :: "16 word"
  AUDIO_S8 :: "16 word"
  AUDIO_U16SYS :: "16 word"
  AUDIO_S16SYS :: "16 word"

text \<open>What the external calls return, in the order \<open>main\<close> makes them. \<open>gen_buffer\<close> and
  \<open>gen_source\<close> are the contents of \<open>buffer\<close> and \<open>source\<close> after \<open>alGenBuffers\<close> and
  \<open>alGenSources\<close> (both variables are set to 0 before the call, so 0 when the call stored
  nothing); \<open>frame_bytes\<close> is the result of the helper \<open>FramesToBytes\<close>. \<open>source_poll k\<close> is
  what iteration \<open>k\<close> of the polling loop observes: the result of \<open>alGetError\<close> and the
  content of \<open>state\<close> after \<open>alGetSourcei\<close>.\<close>

record env =
  ext_present :: int
  sdl_init_result :: int
  sdl_open_result :: int
  obtained :: SDL_AudioSpec
  loopback_device :: ptr
  format_supported :: int
  created_context :: ptr
  make_current :: int
  frame_bytes :: int
  gen_buffer :: ALuint
  buffer_error :: int
  is_buffer :: int
  gen_source :: ALuint
  source_error :: int
  source_poll :: "nat \<Rightarrow> int \<times> int"

text \<open>The external calls, with their arguments and, where the program looks at it, the
  value returned or stored. \<open>Fprintf_stderr\<close> carries the message text without its
  arguments and newline.\<close>

datatype event =
    AlcIsExtensionPresent string int
  | AlcGetProcAddress string
  | Fprintf_stderr string
  | SDL_Init int
  | SDL_GetError
  | SDL_OpenAudio SDL_AudioSpec int
  | SDL_PauseAudio int
  | SDL_CloseAudio
  | SDL_Quit
  | AlcLoopbackOpenDeviceSOFT ptr
  | AlcIsRenderFormatSupportedSOFT ptr int int int int
  | ChannelsName int
  | TypeName int
  | AlcCreateContext ptr "int c_array" ptr
  | AlcMakeContextCurrent ptr int
  | FramesToBytes int int int int
  | AlcDestroyContext ptr
  | AlcCloseDevice ptr
  | AlcRenderSamplesSOFT ptr ptr int
  | AlGenBuffers ALuint
  | AlBufferData ALuint int "int c_array" nat int
  | AlGetError int
  | AlGetString int
  | AlIsBuffer ALuint int
  | AlDeleteBuffers ALuint
  | AlGenSources ALuint
  | AlSourcei ALuint int ALuint
  | AlSourcePlay ALuint
  | Sleep int
  | AlGetSourcei ALuint int int
  | AlDeleteSources ALuint
  | Assertion_failed string

text \<open>How the process ends: \<open>main\<close> returns a status, or a failed \<open>assert\<close> aborts it.\<close>

datatype outcome = Exit int | Abort

type_synonym run = "(outcome \<times> event list) option"

subsection \<open>RenderSDLSamples\<close>

text \<open>C division of two \<open>int\<close>s: undefined for a zero divisor and for \<open>INT_MIN / -1\<close>,
  truncating towards zero otherwise.\<close>

definition c_int_div :: "int \<Rightarrow> int \<Rightarrow> int option" where
  "c_int_div a b =
     (if b = 0 \<or> (a = - (2 ^ 31) \<and> b = - 1) then None
      else Some (sgn a * sgn b * (\<bar>a\<bar> div \<bar>b\<bar>)))"

definition RenderSDLSamples :: "PlaybackInfo \<Rightarrow> ptr \<Rightarrow> int \<Rightarrow> event option" where
  "RenderSDLSamples playback stream len =
     (case c_int_div len (FrameSize playback) of
        None \<Rightarrow> None
      | Some n \<Rightarrow> Some (AlcRenderSamplesSOFT (Device playback) stream n))"

subsection \<open>CreateSineWave\<close>

text \<open>The conversion \<open>(ALshort)x\<close> of a \<open>double\<close>: the fractional part is discarded; the
  behaviour is undefined when the result does not fit 16 bits.\<close>

definition trunc_toward_zero :: "real \<Rightarrow> int" where
  "trunc_toward_zero x = (if 0 \<le> x then \<lfloor>x\<rfloor> else \<lceil>x\<rceil>)"

definition to_ALshort :: "real \<Rightarrow> int option" where
  "to_ALshort x =
     (let t = trunc_toward_zero x
      in if - 32768 \<le> t \<and> t \<le> 32767 then Some t else None)"

text \<open>\<open>sin(i * 441.0 / 44100.0 * 2.0*M_PI)*32767.0\<close>\<close>

definition sine_value :: "nat \<Rightarrow> real" where
  "sine_value i = sin (real i * 441 / 44100 * 2 * pi) * 32767"

text \<open>\<open>for(i = 0;i < 44100;i++) data[i] = (ALshort)(...)\<close>, from the loop's state \<open>i\<close>,
  \<open>data\<close>.\<close>

function fill_loop :: "nat \<Rightarrow> int c_array \<Rightarrow> int c_array option" where
  "fill_loop i data =
     (if i < 44100
      then (case to_ALshort (sine_value i) of
              None \<Rightarrow> None
            | Some s \<Rightarrow> fill_loop (i + 1) (data(i \<mapsto> s)))
      else Some data)"
  by pat_completeness auto
termination
  by (relation "measure (\<lambda>(i, data). 44100 - i)") auto

declare fill_loop.simps [simp del]

text \<open>The array \<open>data\<close> after the loop, and one element of it.\<close>

definition sine_data :: "int c_array option" where
  "sine_data = fill_loop 0 Map.empty"

definition stored_sample :: "nat \<Rightarrow> int option" where
  "stored_sample i = (case sine_data of None \<Rightarrow> None | Some data \<Rightarrow> data i)"

text \<open>The function returns the buffer name and makes the calls listed; \<open>sizeof(data)\<close> is
  \<open>44100 * 2\<close> bytes.\<close>

definition CreateSineWave :: "hdr \<Rightarrow> env \<Rightarrow> (ALuint \<times> event list) option" where
  "CreateSineWave K e =
     (case sine_data of
        None \<Rightarrow> None
      | Some data \<Rightarrow>
          (let buffer = gen_buffer e;
               err = buffer_error e;
               calls = [AlGenBuffers buffer,
                        AlBufferData buffer (AL_FORMAT_MONO16 K) data (44100 * 2) 44100,
                        AlGetError err]
           in if err \<noteq> AL_NO_ERROR K
              then Some (0, calls @ [AlGetString err, Fprintf_stderr ''OpenAL Error: %s'',
                                     AlIsBuffer buffer (is_buffer e)]
                            @ (if is_buffer e \<noteq> 0 then [AlDeleteBuffers buffer] else []))
              else Some (buffer, calls)))"

subsection \<open>main\<close>

text \<open>Sequencing: the calls made so far, followed by the rest of the run.\<close>

definition emit :: "event list \<Rightarrow> run \<Rightarrow> run" where
  "emit tr rest = (case rest of None \<Rightarrow> None | Some (r, tr') \<Rightarrow> Some (r, tr @ tr'))"

text \<open>The label \<open>error:\<close> (lines 235 to 243).\<close>

definition error_label :: "PlaybackInfo \<Rightarrow> run" where
  "error_label playback =
     emit ([SDL_CloseAudio]
           @ (if Context playback \<noteq> 0 then [AlcDestroyContext (Context playback)] else [])
           @ (if Device playback \<noteq> 0 then [AlcCloseDevice (Device playback)] else [])
           @ [SDL_Quit])
       (Some (Exit 1, []))"

text \<open>The two \<open>if\<close> chains of lines 140 to 163: the marker stored, or none when the chain
  ends in \<open>goto error\<close>.\<close>

definition channels_attr :: "hdr \<Rightarrow> SDL_AudioSpec \<Rightarrow> int option" where
  "channels_attr K ob =
     (if channels ob = 1 then Some (ALC_MONO_SOFT K)
      else if channels ob = 2 then Some (ALC_STEREO_SOFT K)
      else None)"

definition type_attr :: "hdr \<Rightarrow> SDL_AudioSpec \<Rightarrow> int option" where
  "type_attr K ob =
     (if format ob = AUDIO_U8 K then Some (ALC_UNSIGNED_BYTE_SOFT K)
      else if format ob = AUDIO_S8 K then Some (ALC_BYTE_SOFT K)
      else if format ob = AUDIO_U16SYS K then Some (ALC_UNSIGNED_SHORT_SOFT K)
      else if format ob = AUDIO_S16SYS K then Some (ALC_SHORT_SOFT K)
      else None)"

text \<open>Lines 139 to 168: the array \<open>attrs\<close> as filled from \<open>obtained\<close>, or the message
  printed before \<open>goto error\<close>.\<close>

definition set_attrs :: "hdr \<Rightarrow> SDL_AudioSpec \<Rightarrow> event list + int c_array" where
  "set_attrs K ob =
     (let attrs = Map.empty(0 \<mapsto> ALC_FORMAT_CHANNELS_SOFT K)
      in case channels_attr K ob of
           None \<Rightarrow> Inl [Fprintf_stderr ''Unhandled SDL channel count: %d'']
         | Some c \<Rightarrow>
             (let attrs = attrs(1 \<mapsto> c);
                  attrs = attrs(2 \<mapsto> ALC_FORMAT_TYPE_SOFT K)
              in case type_attr K ob of
                   None \<Rightarrow> Inl [Fprintf_stderr ''Unhandled SDL format: 0x%04x'']
                 | Some t \<Rightarrow>
                     (let attrs = attrs(3 \<mapsto> t);
                          attrs = attrs(4 \<mapsto> ALC_FREQUENCY K);
                          attrs = attrs(5 \<mapsto> freq ob);
                          attrs = attrs(6 \<mapsto> 0)
                      in Inr attrs)))"

text \<open>Reading an array element; an element never written has no specified value.\<close>

definition rd :: "'a c_array \<Rightarrow> nat \<Rightarrow> 'a" where
  "rd a i = the (a i)"

text \<open>One iteration of the \<open>do ... while\<close> loop of lines 215 to 218, and the loop from
  iteration \<open>k\<close> on, with the calls made so far. The loop need not end.\<close>

definition keeps_polling :: "hdr \<Rightarrow> int \<times> int \<Rightarrow> bool" where
  "keeps_polling K ob = (fst ob = AL_NO_ERROR K \<and> snd ob = AL_PLAYING K)"

definition poll_iter :: "hdr \<Rightarrow> (nat \<Rightarrow> int \<times> int) \<Rightarrow> ALuint \<Rightarrow> nat \<Rightarrow> event list" where
  "poll_iter K obs source k =
     [Sleep 10, AlGetSourcei source (AL_SOURCE_STATE K) (snd (obs k)), AlGetError (fst (obs k))]"

partial_function (option) poll_loop ::
    "hdr \<Rightarrow> (nat \<Rightarrow> int \<times> int) \<Rightarrow> ALuint \<Rightarrow> nat \<Rightarrow> event list \<Rightarrow> event list option" where
  "poll_loop K obs source k tr =
     (let tr' = tr @ poll_iter K obs source k
      in if keeps_polling K (obs k) then poll_loop K obs source (Suc k) tr' else Some tr')"

text \<open>The calls of iterations \<open>k\<close> to \<open>n\<close> of the loop.\<close>

definition poll_calls :: "hdr \<Rightarrow> (nat \<Rightarrow> int \<times> int) \<Rightarrow> ALuint \<Rightarrow> nat \<Rightarrow> nat \<Rightarrow> event list" where
  "poll_calls K obs source k n = concat (map (poll_iter K obs source) [k..<Suc n])"

text \<open>Lines 192 to 233: from \<open>SDL_PauseAudio(0)\<close> to \<open>return 0\<close>.\<close>

definition main_play :: "hdr \<Rightarrow> env \<Rightarrow> PlaybackInfo \<Rightarrow> run" where
  "main_play K e playback =
     emit [SDL_PauseAudio 0]
       (case CreateSineWave K e of
          None \<Rightarrow> None
        | Some (buffer, calls) \<Rightarrow>
            emit calls
              (if buffer = 0
               then Some (Exit 1, [SDL_CloseAudio, AlcDestroyContext (Context playback),
                                   AlcCloseDevice (Device playback), SDL_Quit])
               else
                 (let source = gen_source e
                  in emit [AlGenSources source, AlSourcei source (AL_BUFFER K) buffer]
                       (if \<not> NDEBUG K \<and> source_error e \<noteq> AL_NO_ERROR K
                        then Some (Abort, [AlGetError (source_error e),
                                           Assertion_failed ''Failed to setup sound source''])
                        else
                          emit ((if NDEBUG K then [] else [AlGetError (source_error e)])
                                @ [AlSourcePlay source])
                            (case poll_loop K (source_poll e) source 0 [] of
                               None \<Rightarrow> None
                             | Some polled \<Rightarrow>
                                 Some (Exit 0,
                                       polled
                                       @ [AlDeleteSources source, AlDeleteBuffers buffer,
                                          SDL_PauseAudio 1,
                                          SDL_CloseAudio, AlcDestroyContext (Context playback),
                                          AlcCloseDevice (Device playback), SDL_Quit]))))))"

text \<open>Lines 170 to 190: the loopback device and its context.\<close>

definition main_device :: "hdr \<Rightarrow> env \<Rightarrow> int c_array \<Rightarrow> run" where
  "main_device K e attrs =
     (let playback = \<lparr>Device = 0, Context = 0, FrameSize = 0\<rparr>;
          playback = playback\<lparr>Device := loopback_device e\<rparr>
      in emit [AlcLoopbackOpenDeviceSOFT (Device playback)]
           (if Device playback = 0
            then emit [Fprintf_stderr ''Failed to open loopback device!'']
                   (error_label playback)
            else
              emit [AlcIsRenderFormatSupportedSOFT (Device playback)
                      (rd attrs 5) (rd attrs 1) (rd attrs 3) (format_supported e)]
                (if format_supported e = ALC_FALSE K
                 then emit [ChannelsName (rd attrs 1), TypeName (rd attrs 3),
                            Fprintf_stderr ''Render format not supported: %s, %s, %dhz'']
                        (error_label playback)
                 else
                   (let playback = playback\<lparr>Context := created_context e\<rparr>
                    in emit [AlcCreateContext (Device playback) attrs (Context playback)]
                         (if Context playback = 0
                          then emit [Fprintf_stderr ''Failed to set an OpenAL audio context'']
                                 (error_label playback)
                          else
                            emit [AlcMakeContextCurrent (Context playback) (make_current e)]
                              (if make_current e = ALC_FALSE K
                               then emit [Fprintf_stderr
                                            ''Failed to set an OpenAL audio context'']
                                      (error_label playback)
                               else
                                 (let playback = playback\<lparr>FrameSize := frame_bytes e\<rparr>
                                  in emit [FramesToBytes 1 (rd attrs 1) (rd attrs 3)
                                             (frame_bytes e)]
                                       (main_play K e playback))))))))"

text \<open>\<open>desired\<close> as lines 124 to 128 set it.\<close>

definition desired :: "hdr \<Rightarrow> SDL_AudioSpec" where
  "desired K =
     \<lparr>freq = 44100, format = AUDIO_S16SYS K, channels = 2, samples = 4096, padding = 0\<rparr>"

definition main :: "hdr \<Rightarrow> env \<Rightarrow> run" where
  "main K e =
     emit [AlcIsExtensionPresent ''ALC_SOFT_loopback'' (ext_present e)]
       (if ext_present e = 0
        then emit [Fprintf_stderr ''Error: ALC_SOFT_loopback not supported!'']
               (Some (Exit 1, []))
        else
          emit [AlcGetProcAddress ''alcLoopbackOpenDeviceSOFT'',
                AlcGetProcAddress ''alcIsRenderFormatSupportedSOFT'',
                AlcGetProcAddress ''alcRenderSamplesSOFT'',
                SDL_Init (sdl_init_result e)]
            (if sdl_init_result e = - 1
             then emit [SDL_GetError, Fprintf_stderr ''Failed to init SDL audio: %s'']
                    (Some (Exit 1, []))
             else
               emit [SDL_OpenAudio (desired K) (sdl_open_result e)]
                 (if sdl_open_result e \<noteq> 0
                  then emit [SDL_Quit, SDL_GetError,
                             Fprintf_stderr ''Failed to open SDL audio: %s'']
                         (Some (Exit 1, []))
                  else
                    (case set_attrs K (obtained e) of
                       Inl msg \<Rightarrow>
                         emit msg (error_label \<lparr>Device = 0, Context = 0, FrameSize = 0\<rparr>)
                     | Inr attrs \<Rightarrow> main_device K e attrs))))"

subsection \<open>Observing a run\<close>

text \<open>The resources of the program: the SDL library (\<open>SDL_Init\<close> to \<open>SDL_Quit\<close>), the SDL
  audio stream (\<open>SDL_OpenAudio\<close> to \<open>SDL_CloseAudio\<close>), the loopback device, its context,
  the buffer and the source. A call acquires a resource when it succeeds; the name \<open>0\<close>
  is no buffer and no source, and a null pointer no device and no context.\<close>

datatype resource =
    SDL_library
  | SDL_audio
  | Loopback_device ptr
  | Render_context ptr
  | Buffer_object ALuint
  | Source_object ALuint

fun acquires :: "event \<Rightarrow> resource list" where
  "acquires (SDL_Init r) = (if r = - 1 then [] else [SDL_library])"
| "acquires (SDL_OpenAudio d r) = (if r \<noteq> 0 then [] else [SDL_audio])"
| "acquires (AlcLoopbackOpenDeviceSOFT p) = (if p = 0 then [] else [Loopback_device p])"
| "acquires (AlcCreateContext d a c) = (if c = 0 then [] else [Render_context c])"
| "acquires (AlGenBuffers b) = (if b = 0 then [] else [Buffer_object b])"
| "acquires (AlGenSources s) = (if s = 0 then [] else [Source_object s])"
| "acquires _ = []"

fun releases :: "event \<Rightarrow> resource list" where
  "releases SDL_Quit = [SDL_library]"
| "releases SDL_CloseAudio = [SDL_audio]"
| "releases (AlcCloseDevice p) = (if p = 0 then [] else [Loopback_device p])"
| "releases (AlcDestroyContext c) = (if c = 0 then [] else [Render_context c])"
| "releases (AlDeleteBuffers b) = (if b = 0 then [] else [Buffer_object b])"
| "releases (AlDeleteSources s) = (if s = 0 then [] else [Source_object s])"
| "releases _ = []"

definition acquired :: "event list \<Rightarrow> resource list" where
  "acquired tr = concat (map acquires tr)"

definition released :: "event list \<Rightarrow> resource list" where
  "released tr = concat (map releases tr)"

text \<open>The order in which the program lets go of its resources, highest rank first.\<close>

fun release_rank :: "resource \<Rightarrow> nat" where
  "release_rank SDL_library = 0"
| "release_rank (Loopback_device p) = 1"
| "release_rank (Render_context c) = 2"
| "release_rank SDL_audio = 3"
| "release_rank (Buffer_object b) = 4"
| "release_rank (Source_object s) = 5"

fun opens_device :: "event \<Rightarrow> bool" where
  "opens_device (AlcLoopbackOpenDeviceSOFT p) = True"
| "opens_device _ = False"

fun deletes_object :: "event \<Rightarrow> bool" where
  "deletes_object (AlDeleteBuffers b) = True"
| "deletes_object (AlDeleteSources s) = True"
| "deletes_object _ = False"

text \<open>What OpenAL promises about buffer names: \<open>alIsBuffer\<close> accepts a name that
  \<open>alGenBuffers\<close> stored, and \<open>alGenBuffers\<close> stores a name other than \<open>0\<close> unless an error
  is recorded.\<close>

definition al_contract :: "hdr \<Rightarrow> env \<Rightarrow> bool" where
  "al_contract K e =
     ((gen_buffer e \<noteq> 0 \<longrightarrow> is_buffer e \<noteq> 0)
      \<and> (buffer_error e = AL_NO_ERROR K \<longrightarrow> gen_buffer e \<noteq> 0))"

text \<open>The header constants are pairwise different where the program tells them apart.\<close>

definition hdr_distinct :: "hdr \<Rightarrow> bool" where
  "hdr_distinct K =
     (distinct [AUDIO_U8 K, AUDIO_S8 K, AUDIO_U16SYS K, AUDIO_S16SYS K]
      \<and> distinct [ALC_UNSIGNED_BYTE_SOFT K, ALC_BYTE_SOFT K,
                  ALC_UNSIGNED_SHORT_SOFT K, ALC_SHORT_SOFT K]
      \<and> ALC_MONO_SOFT K \<noteq> ALC_STEREO_SOFT K)"

text \<open>The condition under which \<open>main\<close> leaves through a failure of set-up, negotiation or
  buffer creation.\<close>

definition setup_fails :: "hdr \<Rightarrow> env \<Rightarrow> bool" where
  "setup_fails K e =
     (ext_present e = 0 \<or> sdl_init_result e = - 1 \<or> sdl_open_result e \<noteq> 0
      \<or> channels_attr K (obtained e) = None \<or> type_attr K (obtained e) = None
      \<or> loopback_device e = 0 \<or> format_supported e = ALC_FALSE K
      \<or> created_context e = 0 \<or> make_current e = ALC_FALSE K
      \<or> buffer_error e \<noteq> AL_NO_ERROR K \<or> gen_buffer e = 0)"

subsection \<open>A concrete platform and concrete runs\<close>

text \<open>The values the headers of OpenAL Soft and of SDL on a little-endian machine give
  the constants, with \<open>assert\<close> compiled in.\<close>

definition example_hdr :: hdr where
  "example_hdr =
     \<lparr>NDEBUG = False, AL_NO_ERROR = 0, AL_PLAYING = 0x1012, AL_BUFFER = 0x1009,
      AL_SOURCE_STATE = 0x1010, AL_FORMAT_MONO16 = 0x1101, ALC_FALSE = 0,
      ALC_FREQUENCY = 0x1007, ALC_FORMAT_CHANNELS_SOFT = 0x1990,
      ALC_FORMAT_TYPE_SOFT = 0x1991, ALC_MONO_SOFT = 0x1500, ALC_STEREO_SOFT = 0x1501,
      ALC_UNSIGNED_BYTE_SOFT = 0x1401, ALC_BYTE_SOFT = 0x1400,
      ALC_UNSIGNED_SHORT_SOFT = 0x1403, ALC_SHORT_SOFT = 0x1402,
      AUDIO_U8 = 0x0008, AUDIO_S8 = 0x8008, AUDIO_U16SYS = 0x0010, AUDIO_S16SYS = 0x8010\<rparr>"

text \<open>A run in which every call succeeds and the source is seen playing twice, then
  stopped (\<open>AL_STOPPED\<close> is \<open>0x1014\<close>).\<close>

definition example_poll :: "nat \<Rightarrow> int \<times> int" where
  "example_poll k = (if k < 2 then (0, 0x1012) else (0, 0x1014))"

definition example_env :: env where
  "example_env =
     \<lparr>ext_present = 1, sdl_init_result = 0, sdl_open_result = 0,
      obtained = \<lparr>freq = 44100, format = 0x8010, channels = 2, samples = 4096, padding = 0\<rparr>,
      loopback_device = 100, format_supported = 1, created_context = 200, make_current = 1,
      frame_bytes = 4, gen_buffer = 1, buffer_error = 0, is_buffer = 1,
      gen_source = 1, source_error = 0, source_poll = example_poll\<rparr>"

text \<open>The calls of the three iterations of the polling loop in that run, and the whole
  run.\<close>

definition example_polled :: "event list" where
  "example_polled =
     [Sleep 10, AlGetSourcei 1 0x1010 0x1012, AlGetError 0,
      Sleep 10, AlGetSourcei 1 0x1010 0x1012, AlGetError 0,
      Sleep 10, AlGetSourcei 1 0x1010 0x1014, AlGetError 0]"

section \<open>The sine wave\<close>

subsection \<open>The conversion to a sample\<close>

lemma trunc_toward_zero_round: "\<bar>trunc_toward_zero x - round x\<bar> \<le> 1"
  unfolding trunc_toward_zero_def round_def by (auto; linarith)

lemma trunc_toward_zero_near: "\<bar>real_of_int (trunc_toward_zero x) - x\<bar> < 1"
  unfolding trunc_toward_zero_def by (auto; linarith)

lemma trunc_toward_zero_abs:
  assumes "\<bar>x\<bar> \<le> of_int n"
  shows "\<bar>trunc_toward_zero x\<bar> \<le> n"
proof (cases "0 \<le> x")
  case True
  then have "0 \<le> \<lfloor>x\<rfloor>" by simp
  moreover have "\<lfloor>x\<rfloor> \<le> n" using assms True by (simp add: floor_le_iff)
  ultimately show ?thesis using True by (simp add: trunc_toward_zero_def)
next
  case False
  then have "\<lceil>x\<rceil> \<le> 0" by (simp add: ceiling_le_iff)
  moreover have "- n \<le> \<lceil>x\<rceil>" using assms False by (simp add: le_ceiling_iff)
  ultimately show ?thesis using False by (simp add: trunc_toward_zero_def)
qed

lemma sine_value_abs: "\<bar>sine_value i\<bar> \<le> 32767"
proof -
  have "\<bar>sine_value i\<bar> = \<bar>sin (real i * 441 / 44100 * 2 * pi)\<bar> * 32767"
    by (simp add: sine_value_def abs_mult)
  also have "\<dots> \<le> 1 * 32767"
    by (rule mult_right_mono) simp_all
  finally show ?thesis by simp
qed

lemma sample_abs: "\<bar>trunc_toward_zero (sine_value i)\<bar> \<le> 32767"
  by (rule trunc_toward_zero_abs) (use sine_value_abs [of i] in simp)

lemma to_ALshort_sine_value:
  "to_ALshort (sine_value i) = Some (trunc_toward_zero (sine_value i))"
  using sample_abs [of i] by (simp add: to_ALshort_def Let_def abs_le_iff)

subsection \<open>The loop\<close>

text \<open>From any state, the loop writes the elements from \<open>i\<close> up to 44099 and leaves the
  others alone.\<close>

lemma fill_loop_eq:
  "fill_loop i data =
     Some (\<lambda>j. if i \<le> j \<and> j < 44100 then Some (trunc_toward_zero (sine_value j)) else data j)"
proof (induction i data rule: fill_loop.induct)
  case (1 i data)
  show ?case
  proof (cases "i < 44100")
    case True
    note conv = to_ALshort_sine_value [of i]
    have "fill_loop i data = fill_loop (i + 1) (data(i \<mapsto> trunc_toward_zero (sine_value i)))"
      using True conv by (subst fill_loop.simps) simp
    also have "\<dots> = Some (\<lambda>j. if i + 1 \<le> j \<and> j < 44100
                              then Some (trunc_toward_zero (sine_value j))
                              else (data(i \<mapsto> trunc_toward_zero (sine_value i))) j)"
      by (rule "1.IH" [OF True conv])
    also have "\<dots> = Some (\<lambda>j. if i \<le> j \<and> j < 44100
                              then Some (trunc_toward_zero (sine_value j)) else data j)"
      using True by (auto simp: fun_eq_iff)
    finally show ?thesis .
  next
    case False
    then show ?thesis by (subst fill_loop.simps) (auto simp: fun_eq_iff)
  qed
qed

lemma sine_data_eq:
  "sine_data = Some (\<lambda>j. if j < 44100 then Some (trunc_toward_zero (sine_value j)) else None)"
  by (simp add: sine_data_def fill_loop_eq)

lemma stored_sample_eq:
  "stored_sample i = (if i < 44100 then Some (trunc_toward_zero (sine_value i)) else None)"
  by (simp add: stored_sample_def sine_data_eq)

subsection \<open>Values of the sine\<close>

lemma sin_shift: "sin (x + (2 * pi) * of_int n) = sin x"
  by (simp only: sin_add cos_int_2pin sin_int_2pin mult_1_right mult_zero_right add_0_right)

lemma sine_value_0: "sine_value 0 = 0"
  by (simp add: sine_value_def)

lemma sine_value_11025: "sine_value 11025 = 32767"
proof -
  have "real 11025 * 441 / 44100 * 2 * pi = pi / 2 + (2 * pi) * of_int 110"
    by simp
  then have "sin (real 11025 * 441 / 44100 * 2 * pi) = sin (pi / 2)"
    by (simp only: sin_shift)
  then show ?thesis by (simp add: sine_value_def)
qed

lemma sine_value_33075: "sine_value 33075 = - 32767"
proof -
  have "real 33075 * 441 / 44100 * 2 * pi = - (pi / 2) + (2 * pi) * of_int 331"
    by simp
  then have "sin (real 33075 * 441 / 44100 * 2 * pi) = sin (- (pi / 2))"
    by (simp only: sin_shift)
  then show ?thesis by (simp add: sine_value_def)
qed

text \<open>\<open>sin (pi / 10)\<close> is the positive root of \<open>4 s\<^sup>2 + 2 s - 1\<close>, from
  \<open>cos (3 x) = sin (2 x)\<close> at \<open>x = pi / 10\<close>.\<close>

lemma sin_pi_10_root:
  defines "s \<equiv> sin (pi / 10)"
  shows "4 * s\<^sup>2 + 2 * s - 1 = 0" and "0 < s"
proof -
  define x :: real where "x = pi / 10"
  define c where "c = cos x"
  have sx: "s = sin x" by (simp add: s_def x_def)
  have cpos: "0 < c" unfolding c_def x_def by (rule cos_gt_zero) simp_all
  show "0 < s" unfolding s_def by (rule sin_gt_zero) simp_all
  have "3 * x = pi / 2 - 2 * x" by (simp add: x_def)
  then have "cos (3 * x) = cos (pi / 2 - 2 * x)" by (simp only:)
  also have "\<dots> = sin (2 * x)"
    by (simp only: cos_diff cos_pi_half sin_pi_half mult_zero_left mult_1 add_0)
  finally have "4 * c ^ 3 - 3 * c = 2 * s * c"
    unfolding cos_treble_cos sin_double c_def sx .
  then have "c * (4 * c\<^sup>2 - 3 - 2 * s) = 0"
    by (simp add: algebra_simps power3_eq_cube power2_eq_square)
  with cpos have "4 * c\<^sup>2 - 3 - 2 * s = 0" by simp
  moreover have "c\<^sup>2 = 1 - s\<^sup>2" unfolding c_def sx by (simp add: cos_squared_eq)
  ultimately show "4 * s\<^sup>2 + 2 * s - 1 = 0" by simp
qed

lemma sin_pi_10_bounds: "20251 / 65534 < sin (pi / 10)" "sin (pi / 10) < 10126 / 32767"
proof -
  define s where "s = sin (pi / 10)"
  define a :: real where "a = 20251 / 65534"
  define b :: real where "b = 10126 / 32767"
  have eq: "4 * s\<^sup>2 + 2 * s - 1 = 0" and pos: "0 < s"
    using sin_pi_10_root by (simp_all add: s_def)
  have pa: "4 * a\<^sup>2 + 2 * a - 1 < 0" by (simp add: a_def power2_eq_square)
  have pb: "0 < 4 * b\<^sup>2 + 2 * b - 1" by (simp add: b_def power2_eq_square)
  have "a < s"
  proof (rule ccontr)
    assume "\<not> a < s"
    then have le: "s \<le> a" by simp
    with pos have "s\<^sup>2 \<le> a\<^sup>2" by (intro power_mono) simp_all
    with le pa eq show False by linarith
  qed
  then show "20251 / 65534 < sin (pi / 10)" by (simp add: a_def s_def)
  have "s < b"
  proof (rule ccontr)
    assume "\<not> s < b"
    then have ge: "b \<le> s" by simp
    have "0 \<le> b" by (simp add: b_def)
    with ge have "b\<^sup>2 \<le> s\<^sup>2" by (intro power_mono) simp_all
    with ge pb eq show False by linarith
  qed
  then show "sin (pi / 10) < 10126 / 32767" by (simp add: b_def s_def)
qed

text \<open>At \<open>i = 5\<close> the value is about 10125.56: the conversion stores 10125, rounding would
  give 10126.\<close>

lemma sample_5: "trunc_toward_zero (sine_value 5) = 10125"
proof -
  have "10125 \<le> 32767 * sin (pi / 10)" "32767 * sin (pi / 10) < 10126"
    using sin_pi_10_bounds by simp_all
  then have "\<lfloor>32767 * sin (pi / 10)\<rfloor> = 10125" by (simp add: floor_eq_iff)
  moreover have "0 \<le> 32767 * sin (pi / 10)" using sin_pi_10_bounds(1) by simp
  moreover have "sine_value 5 = 32767 * sin (pi / 10)" by (simp add: sine_value_def)
  ultimately show ?thesis by (simp only: trunc_toward_zero_def if_True)
qed

lemma rounded_5: "round (32767 * sin (2 * pi * 441 * real 5 / 44100)) = 10126"
proof -
  have "10125 + 1/2 \<le> 32767 * sin (pi / 10)" "32767 * sin (pi / 10) < 10126"
    using sin_pi_10_bounds by simp_all
  then have "\<lfloor>32767 * sin (pi / 10) + 1/2\<rfloor> = 10126" by (simp add: floor_eq_iff)
  then show ?thesis by (simp add: round_def)
qed

lemma CreateSineWave_eq:
  "CreateSineWave K e =
     (let data = (\<lambda>j. if j < 44100 then Some (trunc_toward_zero (sine_value j)) else None);
          calls = [AlGenBuffers (gen_buffer e),
                   AlBufferData (gen_buffer e) (AL_FORMAT_MONO16 K) data 88200 44100,
                   AlGetError (buffer_error e)]
      in if buffer_error e \<noteq> AL_NO_ERROR K
         then Some (0, calls @ [AlGetString (buffer_error e), Fprintf_stderr ''OpenAL Error: %s'',
                                AlIsBuffer (gen_buffer e) (is_buffer e)]
                       @ (if is_buffer e \<noteq> 0 then [AlDeleteBuffers (gen_buffer e)] else []))
         else Some (gen_buffer e, calls))"
  by (simp add: CreateSineWave_def sine_data_eq Let_def)

text \<open>
  C1 (amended). The loop of \<open>CreateSineWave\<close> fills exactly the 44100 elements of \<open>data\<close>,
  and these are what \<open>alBufferData\<close> receives, as 88200 bytes at 44100 Hz. The element at
  every index \<open>i\<close> below 44100 is \<open>32767 * sin (2 pi * 441 * i / 44100)\<close> with its fractional
  part discarded (truncated towards zero, not rounded): it is less than 1 away from that
  value and at most 1 away from its rounding. The first sample is 0, the sample at 11025
  is 32767 and the sample at 33075 is -32767.
\<close>

theorem sine_wave_truncated:
  "\<exists>data. sine_data = Some data
     \<and> dom data = {0..<44100}
     \<and> (\<exists>b tr. CreateSineWave K e = Some (b, tr)
          \<and> AlBufferData (gen_buffer e) (AL_FORMAT_MONO16 K) data 88200 44100 \<in> set tr)
     \<and> (\<forall>i<44100. \<exists>s. data i = Some s
          \<and> s = trunc_toward_zero (32767 * sin (2 * pi * 441 * real i / 44100))
          \<and> \<bar>real_of_int s - 32767 * sin (2 * pi * 441 * real i / 44100)\<bar> < 1
          \<and> \<bar>s - round (32767 * sin (2 * pi * 441 * real i / 44100))\<bar> \<le> 1)
     \<and> data 0 = Some 0 \<and> data 11025 = Some 32767 \<and> data 33075 = Some (- 32767)"
proof -
  define data :: "int c_array"
    where "data = (\<lambda>j. if j < 44100 then Some (trunc_toward_zero (sine_value j)) else None)"
  have v: "sine_value i = 32767 * sin (2 * pi * 441 * real i / 44100)" for i
    by (simp add: sine_value_def mult.commute)
  have "sine_data = Some data"
    by (simp add: sine_data_eq data_def)
  moreover have "dom data = {0..<44100}"
    by (auto simp: data_def dom_def)
  moreover have "\<exists>b tr. CreateSineWave K e = Some (b, tr)
      \<and> AlBufferData (gen_buffer e) (AL_FORMAT_MONO16 K) data 88200 44100 \<in> set tr"
    by (simp add: CreateSineWave_eq data_def Let_def)
  moreover have "\<exists>s. data i = Some s
      \<and> s = trunc_toward_zero (32767 * sin (2 * pi * 441 * real i / 44100))
      \<and> \<bar>real_of_int s - 32767 * sin (2 * pi * 441 * real i / 44100)\<bar> < 1
      \<and> \<bar>s - round (32767 * sin (2 * pi * 441 * real i / 44100))\<bar> \<le> 1"
    if "i < 44100" for i
    using that trunc_toward_zero_near [of "sine_value i"]
      trunc_toward_zero_round [of "sine_value i"]
    by (simp add: data_def v)
  moreover have "data 0 = Some 0" "data 11025 = Some 32767" "data 33075 = Some (- 32767)"
    by (simp_all add: data_def sine_value_0 sine_value_11025 sine_value_33075
        trunc_toward_zero_def)
  ultimately show ?thesis by blast
qed

theorem sine_wave_truncated_witness:
  "\<exists>data. sine_data = Some data \<and> (5::nat) < 44100 \<and> data 5 = Some 10125
     \<and> data 0 = Some 0 \<and> data 11025 = Some 32767"
proof -
  have v: "32767 * sin (2 * pi * 441 * real 5 / 44100) = sine_value 5"
    by (simp add: sine_value_def)
  from sine_wave_truncated [of example_hdr example_env]
  obtain data where d: "sine_data = Some data"
    and all: "\<forall>i<44100. \<exists>s. data i = Some s
          \<and> s = trunc_toward_zero (32767 * sin (2 * pi * 441 * real i / 44100))
          \<and> \<bar>real_of_int s - 32767 * sin (2 * pi * 441 * real i / 44100)\<bar> < 1
          \<and> \<bar>s - round (32767 * sin (2 * pi * 441 * real i / 44100))\<bar> \<le> 1"
    and rest: "data 0 = Some 0" "data 11025 = Some 32767"
    by blast
  have five: "(5::nat) < 44100" by simp
  from all five have "data 5 = Some (trunc_toward_zero (32767 * sin (2 * pi * 441 * real 5 / 44100)))"
    by blast
  then have "data 5 = Some 10125"
    by (simp only: v sample_5)
  with d rest five show ?thesis by blast
qed

text \<open>
  C1 as stated fails at \<open>i = 5\<close>: the stored sample is not the rounded value.
\<close>

theorem sine_wave_rounding_counterexample:
  "stored_sample 5 \<noteq> Some (round (32767 * sin (2 * pi * 441 * real 5 / 44100)))"
  by (simp only: rounded_5 stored_sample_eq sample_5) simp

text \<open>
  C10. For every index \<open>i\<close> below 44100 the value \<open>sin (i * 441 / 44100 * 2 pi) * 32767\<close> has
  magnitude at most 32767, so its conversion to a 16-bit sample is defined, and the sample
  stored lies between -32767 and 32767.
\<close>

theorem sine_samples_fit_ALshort:
  "i < 44100 \<Longrightarrow>
     \<bar>sine_value i\<bar> \<le> 32767
     \<and> (\<exists>s. to_ALshort (sine_value i) = Some s \<and> stored_sample i = Some s
            \<and> - 32767 \<le> s \<and> s \<le> 32767)"
  using sample_abs [of i] sine_value_abs [of i]
  by (simp add: to_ALshort_sine_value stored_sample_eq abs_le_iff)

theorem sine_samples_fit_ALshort_witness:
  "(11025::nat) < 44100
     \<and> \<bar>sine_value 11025\<bar> \<le> 32767
     \<and> (\<exists>s. to_ALshort (sine_value 11025) = Some s \<and> stored_sample 11025 = Some s
            \<and> - 32767 \<le> s \<and> s \<le> 32767)"
  using sine_samples_fit_ALshort [of 11025] by simp

section \<open>The callback\<close>

lemma c_int_div_quotient:
  assumes "c_int_div a b = Some n"
  shows "\<exists>r. a = n * b + r \<and> \<bar>r\<bar> < \<bar>b\<bar> \<and> (0 \<le> a \<longrightarrow> 0 \<le> r) \<and> (a \<le> 0 \<longrightarrow> r \<le> 0)"
proof -
  from assms have b: "b \<noteq> 0" and n: "n = sgn a * sgn b * (\<bar>a\<bar> div \<bar>b\<bar>)"
    by (auto simp: c_int_div_def split: if_splits)
  define q where "q = \<bar>a\<bar> div \<bar>b\<bar>"
  define m where "m = \<bar>a\<bar> mod \<bar>b\<bar>"
  define r where "r = sgn a * m"
  have m: "0 \<le> m" "m < \<bar>b\<bar>" using b by (simp_all add: m_def)
  have qm: "\<bar>b\<bar> * q + m = \<bar>a\<bar>" by (simp add: q_def m_def)
  have "sgn b * b = \<bar>b\<bar>" by (simp add: sgn_if)
  then have "n * b = sgn a * (\<bar>b\<bar> * q)"
    unfolding n q_def [symmetric] by (simp add: mult.assoc mult.left_commute [of q])
  then have "n * b + r = sgn a * (\<bar>b\<bar> * q) + sgn a * m"
    by (simp only: r_def)
  also have "\<dots> = sgn a * (\<bar>b\<bar> * q + m)" by (simp only: distrib_left)
  also have "\<dots> = sgn a * \<bar>a\<bar>" by (simp only: qm)
  also have "\<dots> = a" by (simp add: sgn_if)
  finally have "a = n * b + r" by simp
  moreover have "\<bar>r\<bar> < \<bar>b\<bar>"
    using m b by (simp add: r_def abs_mult sgn_if)
  moreover have "0 \<le> a \<longrightarrow> 0 \<le> r" "a \<le> 0 \<longrightarrow> r \<le> 0"
    using m by (simp_all add: r_def sgn_if)
  ultimately show ?thesis by blast
qed

text \<open>
  C7. Called with the address of the session, a destination and a length in bytes,
  \<open>RenderSDLSamples\<close> makes one call of \<open>alcRenderSamplesSOFT\<close>: on the device stored in the
  session, into the destination, for \<open>len / FrameSize\<close> frames, the quotient of C (exact up
  to a remainder smaller than the frame size and of the sign of \<open>len\<close>; the floor quotient
  when \<open>len\<close> is not negative and the frame size positive). The division is defined when the
  frame size is not 0 and the operands are not \<open>INT_MIN\<close> and \<open>-1\<close>.
\<close>

theorem RenderSDLSamples_frame_count:
  assumes "FrameSize playback \<noteq> 0"
    and "\<not> (len = - (2 ^ 31) \<and> FrameSize playback = - 1)"
  shows "\<exists>n r. RenderSDLSamples playback stream len
                 = Some (AlcRenderSamplesSOFT (Device playback) stream n)
           \<and> len = n * FrameSize playback + r \<and> \<bar>r\<bar> < \<bar>FrameSize playback\<bar>
           \<and> (0 \<le> len \<longrightarrow> 0 \<le> r) \<and> (len \<le> 0 \<longrightarrow> r \<le> 0)
           \<and> (0 \<le> len \<and> 0 < FrameSize playback \<longrightarrow> n = len div FrameSize playback)"
proof -
  define n where "n = sgn len * sgn (FrameSize playback) * (\<bar>len\<bar> div \<bar>FrameSize playback\<bar>)"
  have d: "c_int_div len (FrameSize playback) = Some n"
    using assms by (auto simp: c_int_div_def n_def)
  then have call: "RenderSDLSamples playback stream len
      = Some (AlcRenderSamplesSOFT (Device playback) stream n)"
    by (simp add: RenderSDLSamples_def)
  from c_int_div_quotient [OF d] obtain r
    where r: "len = n * FrameSize playback + r" "\<bar>r\<bar> < \<bar>FrameSize playback\<bar>"
      "0 \<le> len \<longrightarrow> 0 \<le> r" "len \<le> 0 \<longrightarrow> r \<le> 0"
    by blast
  have "n = len div FrameSize playback" if "0 \<le> len" "0 < FrameSize playback"
  proof (cases "len = 0")
    case True
    then show ?thesis by (simp add: n_def)
  next
    case False
    with that show ?thesis by (simp add: n_def)
  qed
  with call r show ?thesis by blast
qed

theorem RenderSDLSamples_frame_count_witness:
  "FrameSize \<lparr>Device = 100, Context = 200, FrameSize = 4\<rparr> \<noteq> 0
     \<and> RenderSDLSamples \<lparr>Device = 100, Context = 200, FrameSize = 4\<rparr> 7000 16384
         = Some (AlcRenderSamplesSOFT 100 7000 4096)"
proof -
  have "\<exists>n r. RenderSDLSamples \<lparr>Device = 100, Context = 200, FrameSize = 4\<rparr> 7000 16384
                 = Some (AlcRenderSamplesSOFT 100 7000 n)
           \<and> (16384::int) = n * 4 + r \<and> \<bar>r\<bar> < 4
           \<and> 0 \<le> r \<and> n = 16384 div 4"
    using RenderSDLSamples_frame_count
      [of "\<lparr>Device = 100, Context = 200, FrameSize = 4\<rparr>" 16384 7000]
    by simp
  then show ?thesis by auto
qed

section \<open>The attribute list\<close>

text \<open>
  C2. For a channel count of 1 or 2 and one of the four formats \<open>AUDIO_U8\<close>, \<open>AUDIO_S8\<close>,
  \<open>AUDIO_U16SYS\<close>, \<open>AUDIO_S16SYS\<close>, lines 139 to 168 do not reach \<open>goto error\<close> and leave in
  \<open>attrs\<close> exactly seven elements: the channel key with the mono marker for 1 and the
  stereo marker for 2, the type key with the marker of the format, the frequency key with
  the obtained frequency unchanged, and a final 0. Different supported formats get
  different markers.
\<close>

theorem set_attrs_supported:
  assumes "hdr_distinct K"
    and "channels ob = 1 \<or> channels ob = 2"
    and "format ob \<in> {AUDIO_U8 K, AUDIO_S8 K, AUDIO_U16SYS K, AUDIO_S16SYS K}"
  shows "\<exists>attrs. set_attrs K ob = Inr attrs
           \<and> dom attrs = {0..6}
           \<and> attrs 0 = Some (ALC_FORMAT_CHANNELS_SOFT K)
           \<and> (channels ob = 1 \<longrightarrow> attrs 1 = Some (ALC_MONO_SOFT K))
           \<and> (channels ob = 2 \<longrightarrow> attrs 1 = Some (ALC_STEREO_SOFT K))
           \<and> attrs 2 = Some (ALC_FORMAT_TYPE_SOFT K)
           \<and> (format ob = AUDIO_U8 K \<longrightarrow> attrs 3 = Some (ALC_UNSIGNED_BYTE_SOFT K))
           \<and> (format ob = AUDIO_S8 K \<longrightarrow> attrs 3 = Some (ALC_BYTE_SOFT K))
           \<and> (format ob = AUDIO_U16SYS K \<longrightarrow> attrs 3 = Some (ALC_UNSIGNED_SHORT_SOFT K))
           \<and> (format ob = AUDIO_S16SYS K \<longrightarrow> attrs 3 = Some (ALC_SHORT_SOFT K))
           \<and> attrs 4 = Some (ALC_FREQUENCY K)
           \<and> attrs 5 = Some (freq ob)
           \<and> attrs 6 = Some 0
           \<and> (\<forall>ob' attrs'. set_attrs K ob' = Inr attrs' \<and> attrs' 3 = attrs 3
                 \<longrightarrow> format ob' = format ob)"
proof -
  from assms(2) obtain c where c: "channels_attr K ob = Some c"
    and c1: "channels ob = 1 \<longrightarrow> c = ALC_MONO_SOFT K"
    and c2: "channels ob = 2 \<longrightarrow> c = ALC_STEREO_SOFT K"
    by (auto simp: channels_attr_def)
  from assms(1,3) obtain t where t: "type_attr K ob = Some t"
    and t1: "format ob = AUDIO_U8 K \<longrightarrow> t = ALC_UNSIGNED_BYTE_SOFT K"
    and t2: "format ob = AUDIO_S8 K \<longrightarrow> t = ALC_BYTE_SOFT K"
    and t3: "format ob = AUDIO_U16SYS K \<longrightarrow> t = ALC_UNSIGNED_SHORT_SOFT K"
    and t4: "format ob = AUDIO_S16SYS K \<longrightarrow> t = ALC_SHORT_SOFT K"
    by (auto simp: type_attr_def hdr_distinct_def)
  define attrs :: "int c_array" where
    "attrs = [0 \<mapsto> ALC_FORMAT_CHANNELS_SOFT K, 1 \<mapsto> c, 2 \<mapsto> ALC_FORMAT_TYPE_SOFT K,
              3 \<mapsto> t, 4 \<mapsto> ALC_FREQUENCY K, 5 \<mapsto> freq ob, 6 \<mapsto> 0]"
  have s: "set_attrs K ob = Inr attrs"
    by (simp add: set_attrs_def c t attrs_def)
  have d: "dom attrs = {0..6}"
    by (auto simp: attrs_def)
  have inj: "format ob' = format ob" if "set_attrs K ob' = Inr attrs'" "attrs' 3 = attrs 3"
    for ob' attrs'
  proof -
    from that(1) obtain t' where t': "type_attr K ob' = Some t'" and a': "attrs' 3 = Some t'"
      by (auto simp: set_attrs_def Let_def split: option.splits)
    from that(2) a' have "t' = t" by (simp add: attrs_def)
    with t t' assms(1) show ?thesis
      by (auto simp: type_attr_def hdr_distinct_def split: if_splits)
  qed
  have vals: "attrs 0 = Some (ALC_FORMAT_CHANNELS_SOFT K)" "attrs 1 = Some c"
    "attrs 2 = Some (ALC_FORMAT_TYPE_SOFT K)" "attrs 3 = Some t"
    "attrs 4 = Some (ALC_FREQUENCY K)" "attrs 5 = Some (freq ob)" "attrs 6 = Some 0"
    by (simp_all add: attrs_def)
  show ?thesis
  proof (intro exI [of _ attrs] conjI)
    show "\<forall>ob' attrs'. set_attrs K ob' = Inr attrs' \<and> attrs' 3 = attrs 3
            \<longrightarrow> format ob' = format ob"
      using inj by blast
  qed (use s d vals c1 c2 t1 t2 t3 t4 in simp_all)
qed

lemma hdr_distinct_example: "hdr_distinct example_hdr"
  by (simp add: hdr_distinct_def example_hdr_def)

theorem set_attrs_supported_witness:
  "hdr_distinct example_hdr
     \<and> set_attrs example_hdr
         \<lparr>freq = 44100, format = 0x8010, channels = 2, samples = 4096, padding = 0\<rparr>
       = Inr [0 \<mapsto> 0x1990, 1 \<mapsto> 0x1501, 2 \<mapsto> 0x1991, 3 \<mapsto> 0x1402, 4 \<mapsto> 0x1007,
              5 \<mapsto> 44100, 6 \<mapsto> 0]
     \<and> (\<exists>attrs. set_attrs example_hdr
           \<lparr>freq = 22050, format = 0x0008, channels = 1, samples = 512, padding = 0\<rparr>
         = Inr attrs \<and> attrs 1 = Some 0x1500 \<and> attrs 3 = Some 0x1401 \<and> attrs 5 = Some 22050)"
proof -
  let ?a = "\<lparr>freq = 44100, format = 0x8010, channels = 2, samples = 4096, padding = 0\<rparr>"
  let ?b = "\<lparr>freq = 22050, format = 0x0008, channels = 1, samples = 512, padding = 0\<rparr>"
  have a: "channels ?a = 1 \<or> channels ?a = 2"
    "format ?a \<in> {AUDIO_U8 example_hdr, AUDIO_S8 example_hdr,
                   AUDIO_U16SYS example_hdr, AUDIO_S16SYS example_hdr}"
    by (simp_all add: example_hdr_def)
  have b: "channels ?b = 1 \<or> channels ?b = 2"
    "format ?b \<in> {AUDIO_U8 example_hdr, AUDIO_S8 example_hdr,
                   AUDIO_U16SYS example_hdr, AUDIO_S16SYS example_hdr}"
    by (simp_all add: example_hdr_def)
  from set_attrs_supported [OF hdr_distinct_example a]
  obtain attrs where "set_attrs example_hdr ?a = Inr attrs" by blast
  moreover have "set_attrs example_hdr ?a
       = Inr [0 \<mapsto> 0x1990, 1 \<mapsto> 0x1501, 2 \<mapsto> 0x1991, 3 \<mapsto> 0x1402, 4 \<mapsto> 0x1007,
              5 \<mapsto> 44100, 6 \<mapsto> 0]"
    by (simp add: set_attrs_def channels_attr_def type_attr_def example_hdr_def)
  moreover from set_attrs_supported [OF hdr_distinct_example b]
  have "\<exists>attrs. set_attrs example_hdr ?b = Inr attrs
      \<and> attrs 1 = Some 0x1500 \<and> attrs 3 = Some 0x1401 \<and> attrs 5 = Some 22050"
    by (simp add: example_hdr_def) blast
  ultimately show ?thesis using hdr_distinct_example by blast
qed

section \<open>The polling loop\<close>

lemma poll_calls_step:
  "k \<le> n \<Longrightarrow> poll_calls K obs source k n
     = poll_iter K obs source k @ poll_calls K obs source (Suc k) n"
  by (simp add: poll_calls_def upt_conv_Cons del: upt_Suc)

lemma poll_calls_single: "poll_calls K obs source k k = poll_iter K obs source k"
  by (simp add: poll_calls_def)

lemma poll_loop_stops:
  assumes "k \<le> n"
    and "\<not> keeps_polling K (obs n)"
    and "\<forall>j. k \<le> j \<and> j < n \<longrightarrow> keeps_polling K (obs j)"
  shows "poll_loop K obs source k tr = Some (tr @ poll_calls K obs source k n)"
  using assms
proof (induction "n - k" arbitrary: k tr)
  case 0
  then have "k = n" by simp
  with 0 show ?case
    by (subst poll_loop.simps) (simp add: poll_calls_single)
next
  case (Suc d)
  then have lt: "k < n" and keep: "keeps_polling K (obs k)" by auto
  have "poll_loop K obs source (Suc k) (tr @ poll_iter K obs source k)
      = Some ((tr @ poll_iter K obs source k) @ poll_calls K obs source (Suc k) n)"
    using Suc.prems Suc.hyps(2) lt by (intro Suc.hyps(1)) auto
  with keep lt show ?case
    by (subst poll_loop.simps) (simp add: poll_calls_step [of k n])
qed

lemma poll_loop_Some:
  assumes "poll_loop K obs source k tr = Some out"
  shows "\<exists>n\<ge>k. \<not> keeps_polling K (obs n)
           \<and> (\<forall>j. k \<le> j \<and> j < n \<longrightarrow> keeps_polling K (obs j))
           \<and> out = tr @ poll_calls K obs source k n"
proof (rule poll_loop.raw_induct
    [where P = "\<lambda>K obs source k tr out. \<exists>n\<ge>k. \<not> keeps_polling K (obs n)
           \<and> (\<forall>j. k \<le> j \<and> j < n \<longrightarrow> keeps_polling K (obs j))
           \<and> out = tr @ poll_calls K obs source k n", OF _ assms], goal_cases)
  case (1 poll K obs source k tr out)
  show ?case
  proof (cases "keeps_polling K (obs k)")
    case True
    with 1(2) have "poll K obs source (Suc k) (tr @ poll_iter K obs source k) = Some out"
      by (simp add: Let_def)
    from 1(1) [OF this] obtain n where n: "Suc k \<le> n" "\<not> keeps_polling K (obs n)"
      "\<forall>j. Suc k \<le> j \<and> j < n \<longrightarrow> keeps_polling K (obs j)"
      "out = (tr @ poll_iter K obs source k) @ poll_calls K obs source (Suc k) n"
      by blast
    have "\<forall>j. k \<le> j \<and> j < n \<longrightarrow> keeps_polling K (obs j)"
    proof (intro allI impI)
      fix j assume "k \<le> j \<and> j < n"
      then show "keeps_polling K (obs j)"
        using True n(3) by (cases "j = k") auto
    qed
    moreover have "out = tr @ poll_calls K obs source k n"
      using n(1,4) by (simp add: poll_calls_step [of k n])
    ultimately show ?thesis using n(1,2) by (intro exI [of _ n]) simp
  next
    case False
    with 1(2) have "out = tr @ poll_iter K obs source k"
      by (simp add: Let_def)
    with False show ?thesis
      by (intro exI [of _ k]) (auto simp: poll_calls_single)
  qed
qed

lemma poll_loop_None_iff:
  "poll_loop K obs source 0 [] = None \<longleftrightarrow> (\<forall>j. keeps_polling K (obs j))"
proof
  assume n: "poll_loop K obs source 0 [] = None"
  show "\<forall>j. keeps_polling K (obs j)"
  proof (rule ccontr)
    assume "\<not> (\<forall>j. keeps_polling K (obs j))"
    then have ex: "\<exists>j. \<not> keeps_polling K (obs j)" by simp
    define m where "m = (LEAST j. \<not> keeps_polling K (obs j))"
    have "\<not> keeps_polling K (obs m)"
      unfolding m_def using ex by (rule LeastI_ex)
    moreover have "\<forall>j. 0 \<le> j \<and> j < m \<longrightarrow> keeps_polling K (obs j)"
      unfolding m_def using not_less_Least by blast
    ultimately have "poll_loop K obs source 0 [] = Some ([] @ poll_calls K obs source 0 m)"
      by (intro poll_loop_stops) simp_all
    with n show False by simp
  qed
next
  assume all: "\<forall>j. keeps_polling K (obs j)"
  show "poll_loop K obs source 0 [] = None"
  proof (cases "poll_loop K obs source 0 []")
    case (Some out)
    from poll_loop_Some [OF this] all show ?thesis by blast
  qed simp
qed

lemma poll_loop_harmless:
  assumes "poll_loop K obs source 0 [] = Some out"
  shows "acquired out = []" and "released out = []" and "\<not> list_ex opens_device out"
    and "\<not> list_ex deletes_object out"
proof -
  from poll_loop_Some [OF assms] obtain n where "out = poll_calls K obs source 0 n"
    by auto
  then have out: "out = concat (map (poll_iter K obs source) [0..<Suc n])"
    by (simp add: poll_calls_def)
  have a: "concat (map acquires (concat (map (poll_iter K obs source) xs))) = []" for xs
    by (induction xs) (simp_all add: poll_iter_def)
  show "acquired out = []" unfolding acquired_def out by (rule a)
  have r: "concat (map releases (concat (map (poll_iter K obs source) xs))) = []" for xs
    by (induction xs) (simp_all add: poll_iter_def)
  show "released out = []" unfolding released_def out by (rule r)
  have o: "\<not> list_ex opens_device (concat (map (poll_iter K obs source) xs))" for xs
    by (induction xs) (simp_all add: poll_iter_def)
  show "\<not> list_ex opens_device out" unfolding out by (rule o)
  have d: "\<not> list_ex deletes_object (concat (map (poll_iter K obs source) xs))" for xs
    by (induction xs) (simp_all add: poll_iter_def)
  show "\<not> list_ex deletes_object out" unfolding out by (rule d)
qed

lemma upt_3: "[0..<Suc 2] = [0, 1, 2]"
  by (simp add: upt_rec)

lemma poll_calls_example: "poll_calls example_hdr example_poll 1 0 2 = example_polled"
  unfolding poll_calls_def upt_3
  by (simp add: poll_iter_def example_poll_def example_polled_def example_hdr_def)

lemma poll_loop_example: "poll_loop example_hdr example_poll 1 0 [] = Some example_polled"
proof -
  have "poll_loop example_hdr example_poll 1 0 []
      = Some ([] @ poll_calls example_hdr example_poll 1 0 2)"
    by (rule poll_loop_stops)
      (auto simp: keeps_polling_def example_poll_def example_hdr_def)
  then show ?thesis by (simp only: poll_calls_example append_Nil)
qed

text \<open>
  C6. Every iteration of the polling loop sleeps for 10 (milliseconds) and then queries the
  source state and the error. The loop ends after iteration \<open>n\<close> exactly when every earlier
  iteration saw no error and the state "playing" and iteration \<open>n\<close> saw an error or another
  state; it has then made the calls of iterations 0 to \<open>n\<close> and no others. When every
  iteration sees no error and "playing", the loop does not end.
\<close>

theorem poll_loop_exact:
  "(poll_loop K obs source 0 [] = Some out \<longleftrightarrow>
      (\<exists>n. (\<forall>j<n. fst (obs j) = AL_NO_ERROR K \<and> snd (obs j) = AL_PLAYING K)
         \<and> (fst (obs n) \<noteq> AL_NO_ERROR K \<or> snd (obs n) \<noteq> AL_PLAYING K)
         \<and> out = concat (map (\<lambda>j. [Sleep 10,
                                     AlGetSourcei source (AL_SOURCE_STATE K) (snd (obs j)),
                                     AlGetError (fst (obs j))]) [0..<Suc n])))
   \<and> (poll_loop K obs source 0 [] = None \<longleftrightarrow>
        (\<forall>j. fst (obs j) = AL_NO_ERROR K \<and> snd (obs j) = AL_PLAYING K))"
proof -
  let ?stop = "\<lambda>n out. (\<forall>j<n. fst (obs j) = AL_NO_ERROR K \<and> snd (obs j) = AL_PLAYING K)
         \<and> (fst (obs n) \<noteq> AL_NO_ERROR K \<or> snd (obs n) \<noteq> AL_PLAYING K)
         \<and> out = concat (map (\<lambda>j. [Sleep 10,
                                     AlGetSourcei source (AL_SOURCE_STATE K) (snd (obs j)),
                                     AlGetError (fst (obs j))]) [0..<Suc n])"
  have calls: "poll_calls K obs source 0 n
      = concat (map (\<lambda>j. [Sleep 10, AlGetSourcei source (AL_SOURCE_STATE K) (snd (obs j)),
                           AlGetError (fst (obs j))]) [0..<Suc n])" for n
    unfolding poll_calls_def poll_iter_def ..
  have fwd: "\<exists>n. ?stop n out" if "poll_loop K obs source 0 [] = Some out" for out
  proof -
    from poll_loop_Some [OF that] obtain n where "\<not> keeps_polling K (obs n)"
      "\<forall>j. 0 \<le> j \<and> j < n \<longrightarrow> keeps_polling K (obs j)" "out = [] @ poll_calls K obs source 0 n"
      by blast
    then have "?stop n out"
      by (simp add: keeps_polling_def calls del: upt_Suc)
    then show ?thesis ..
  qed
  have bwd: "poll_loop K obs source 0 [] = Some out" if "?stop n out" for n out
  proof -
    have "poll_loop K obs source 0 [] = Some ([] @ poll_calls K obs source 0 n)"
      using that by (intro poll_loop_stops) (auto simp: keeps_polling_def)
    with that show ?thesis by (simp add: calls del: upt_Suc)
  qed
  have none: "poll_loop K obs source 0 [] = None
      \<longleftrightarrow> (\<forall>j. fst (obs j) = AL_NO_ERROR K \<and> snd (obs j) = AL_PLAYING K)"
    using poll_loop_None_iff [of K obs source] by (simp add: keeps_polling_def)
  from fwd bwd none show ?thesis by blast
qed

theorem poll_loop_exact_witness:
  "fst (example_poll 0) = AL_NO_ERROR example_hdr
     \<and> snd (example_poll 0) = AL_PLAYING example_hdr
     \<and> fst (example_poll 1) = AL_NO_ERROR example_hdr
     \<and> snd (example_poll 1) = AL_PLAYING example_hdr
     \<and> snd (example_poll 2) \<noteq> AL_PLAYING example_hdr
     \<and> poll_loop example_hdr example_poll 1 0 [] = Some example_polled"
proof -
  have keep: "\<forall>j<2. fst (example_poll j) = AL_NO_ERROR example_hdr
            \<and> snd (example_poll j) = AL_PLAYING example_hdr"
    by (simp add: example_poll_def example_hdr_def)
  have stop: "snd (example_poll 2) \<noteq> AL_PLAYING example_hdr"
    by (simp add: example_poll_def example_hdr_def)
  have out: "example_polled
      = concat (map (\<lambda>j. [Sleep 10,
                           AlGetSourcei 1 (AL_SOURCE_STATE example_hdr) (snd (example_poll j)),
                           AlGetError (fst (example_poll j))]) [0..<Suc 2])"
    unfolding upt_3 by (simp add: example_polled_def example_poll_def example_hdr_def)
  from keep stop out
  have "poll_loop example_hdr example_poll 1 0 [] = Some example_polled"
    using poll_loop_exact [of example_hdr example_poll 1 example_polled] by blast
  with keep stop show ?thesis by simp
qed

section \<open>Runs of main\<close>

lemma emit_Some [simp]: "emit tr (Some (r, tr')) = Some (r, tr @ tr')"
  by (simp add: emit_def)

lemma emit_None [simp]: "emit tr None = None"
  by (simp add: emit_def)

lemma emit_eq_Some:
  "emit tr rest = Some (r, t) \<longleftrightarrow> (\<exists>t'. rest = Some (r, t') \<and> t = tr @ t')"
  by (auto simp: emit_def split: option.splits)

lemma acquired_simps [simp]:
  "acquired [] = []"
  "acquired (ev # tr) = acquires ev @ acquired tr"
  "acquired (tr @ tr') = acquired tr @ acquired tr'"
  by (simp_all add: acquired_def)

lemma released_simps [simp]:
  "released [] = []"
  "released (ev # tr) = releases ev @ released tr"
  "released (tr @ tr') = released tr @ released tr'"
  by (simp_all add: released_def)

lemma error_label_eq:
  "error_label playback =
     Some (Exit 1,
           [SDL_CloseAudio]
           @ (if Context playback \<noteq> 0 then [AlcDestroyContext (Context playback)] else [])
           @ (if Device playback \<noteq> 0 then [AlcCloseDevice (Device playback)] else [])
           @ [SDL_Quit])"
  by (simp add: error_label_def)

text \<open>What \<open>CreateSineWave\<close> acquires and releases.\<close>

lemma CreateSineWave_resources:
  assumes "CreateSineWave K e = Some (buffer, calls)" and "al_contract K e"
  shows "buffer = 0 \<Longrightarrow> released calls = acquired calls"
    and "buffer = 0 \<Longrightarrow> acquired calls = [] \<or> acquired calls = [Buffer_object (gen_buffer e)]"
    and "buffer \<noteq> 0 \<Longrightarrow> buffer = gen_buffer e \<and> acquired calls = [Buffer_object buffer]
           \<and> released calls = [] \<and> \<not> list_ex deletes_object calls"
    and "\<not> list_ex opens_device calls"
  using assms
  by (auto simp: CreateSineWave_eq al_contract_def Let_def split: if_splits)

text \<open>The three parts of \<open>main\<close>, each by the resources its run acquires and releases:
  \<open>objs\<close> are the buffer and the source, as far as they were created.\<close>

lemma main_play_resources:
  assumes "main_play K e playback = Some (Exit c, tr)" and "al_contract K e"
    and "Device playback \<noteq> 0" and "Context playback \<noteq> 0"
  shows "\<exists>objs. acquired tr = objs
           \<and> released tr = rev objs @ [SDL_audio, Render_context (Context playback),
                                       Loopback_device (Device playback), SDL_library]
           \<and> sorted_wrt (<) (map release_rank objs) \<and> (\<forall>x\<in>set objs. 4 \<le> release_rank x)"
proof -
  from assms(1) obtain buffer calls rest where cs: "CreateSineWave K e = Some (buffer, calls)"
    and tr: "tr = SDL_PauseAudio 0 # calls @ rest"
    and rest:
      "(if buffer = 0
        then Some (Exit 1, [SDL_CloseAudio, AlcDestroyContext (Context playback),
                            AlcCloseDevice (Device playback), SDL_Quit])
        else
          (let source = gen_source e
           in emit [AlGenSources source, AlSourcei source (AL_BUFFER K) buffer]
                (if \<not> NDEBUG K \<and> source_error e \<noteq> AL_NO_ERROR K
                 then Some (Abort, [AlGetError (source_error e),
                                    Assertion_failed ''Failed to setup sound source''])
                 else
                   emit ((if NDEBUG K then [] else [AlGetError (source_error e)])
                         @ [AlSourcePlay source])
                     (case poll_loop K (source_poll e) source 0 [] of
                        None \<Rightarrow> None
                      | Some polled \<Rightarrow>
                          Some (Exit 0,
                                polled
                                @ [AlDeleteSources source, AlDeleteBuffers buffer,
                                   SDL_PauseAudio 1,
                                   SDL_CloseAudio, AlcDestroyContext (Context playback),
                                   AlcCloseDevice (Device playback), SDL_Quit]))))) 
       = Some (Exit c, rest)"
    by (auto simp: main_play_def emit_eq_Some split: option.splits prod.splits)
  show ?thesis
  proof (cases "buffer = 0")
    case True
    with rest have r: "rest = [SDL_CloseAudio, AlcDestroyContext (Context playback),
                            AlcCloseDevice (Device playback), SDL_Quit]" by simp
    from CreateSineWave_resources(1,2) [OF cs assms(2) True]
    show ?thesis using assms(3,4) by (auto simp: tr r)
  next
    case False
    from CreateSineWave_resources(3) [OF cs assms(2) False]
    have b: "acquired calls = [Buffer_object buffer]" "released calls = []" by simp_all
    from rest False obtain polled where
      p: "poll_loop K (source_poll e) (gen_source e) 0 [] = Some polled"
      and r: "rest = [AlGenSources (gen_source e), AlSourcei (gen_source e) (AL_BUFFER K) buffer]
               @ (if NDEBUG K then [] else [AlGetError (source_error e)])
               @ [AlSourcePlay (gen_source e)] @ polled
               @ [AlDeleteSources (gen_source e), AlDeleteBuffers buffer,
                  SDL_PauseAudio 1,
                  SDL_CloseAudio, AlcDestroyContext (Context playback),
                  AlcCloseDevice (Device playback), SDL_Quit]"
      by (auto simp: Let_def emit_eq_Some split: if_splits option.splits)
    note h = poll_loop_harmless(1,2) [OF p]
    show ?thesis using assms(3,4) False
      by (auto simp: tr r b h)
  qed
qed

lemma main_device_resources:
  assumes "main_device K e attrs = Some (Exit c, tr)" and "al_contract K e"
  shows "\<exists>dev ctx objs. acquired tr = dev @ ctx @ objs
           \<and> released tr = rev objs @ [SDL_audio] @ ctx @ dev @ [SDL_library]
           \<and> (dev = [] \<or> (\<exists>d. dev = [Loopback_device d]))
           \<and> (ctx = [] \<or> (\<exists>x. ctx = [Render_context x]))
           \<and> sorted_wrt (<) (map release_rank objs) \<and> (\<forall>x\<in>set objs. 4 \<le> release_rank x)"
proof -
  let ?d = "loopback_device e" and ?c = "created_context e"
  consider (nodev) "?d = 0"
    | (unsupported) "?d \<noteq> 0" "format_supported e = ALC_FALSE K"
    | (noctx) "?d \<noteq> 0" "format_supported e \<noteq> ALC_FALSE K" "?c = 0"
    | (notcurrent) "?d \<noteq> 0" "format_supported e \<noteq> ALC_FALSE K" "?c \<noteq> 0"
        "make_current e = ALC_FALSE K"
    | (play) "?d \<noteq> 0" "format_supported e \<noteq> ALC_FALSE K" "?c \<noteq> 0"
        "make_current e \<noteq> ALC_FALSE K"
    by blast
  then show ?thesis
  proof cases
    case nodev
    with assms(1) have "acquired tr = [] @ [] @ []"
      "released tr = rev [] @ [SDL_audio] @ [] @ [] @ [SDL_library]"
      by (auto simp: main_device_def error_label_eq)
    then show ?thesis by (intro exI [of _ "[]"]) simp
  next
    case unsupported
    with assms(1) have "acquired tr = [Loopback_device ?d] @ [] @ []"
      "released tr = rev [] @ [SDL_audio] @ [] @ [Loopback_device ?d] @ [SDL_library]"
      by (auto simp: main_device_def error_label_eq)
    then show ?thesis
      by (intro exI [of _ "[Loopback_device ?d]"] exI [of _ "[]"]) simp
  next
    case noctx
    with assms(1) have "acquired tr = [Loopback_device ?d] @ [] @ []"
      "released tr = rev [] @ [SDL_audio] @ [] @ [Loopback_device ?d] @ [SDL_library]"
      by (auto simp: main_device_def error_label_eq)
    then show ?thesis
      by (intro exI [of _ "[Loopback_device ?d]"] exI [of _ "[]"]) simp
  next
    case notcurrent
    with assms(1) have "acquired tr = [Loopback_device ?d] @ [Render_context ?c] @ []"
      "released tr = rev [] @ [SDL_audio] @ [Render_context ?c] @ [Loopback_device ?d]
                     @ [SDL_library]"
      by (auto simp: main_device_def error_label_eq)
    then show ?thesis
      by (intro exI [of _ "[Loopback_device ?d]"] exI [of _ "[Render_context ?c]"]
          exI [of _ "[]"]) simp
  next
    case play
    let ?pb = "\<lparr>Device = ?d, Context = ?c, FrameSize = frame_bytes e\<rparr>"
    from assms(1) play obtain t where t: "main_play K e ?pb = Some (Exit c, t)"
      and tr: "tr = [AlcLoopbackOpenDeviceSOFT ?d,
                     AlcIsRenderFormatSupportedSOFT ?d (rd attrs 5) (rd attrs 1) (rd attrs 3)
                       (format_supported e),
                     AlcCreateContext ?d attrs ?c,
                     AlcMakeContextCurrent ?c (make_current e),
                     FramesToBytes 1 (rd attrs 1) (rd attrs 3) (frame_bytes e)] @ t"
      by (auto simp: main_device_def emit_eq_Some)
    from main_play_resources [OF t assms(2)] play obtain objs
      where o: "acquired t = objs"
        "released t = rev objs @ [SDL_audio, Render_context ?c, Loopback_device ?d, SDL_library]"
        "sorted_wrt (<) (map release_rank objs)" "\<forall>x\<in>set objs. 4 \<le> release_rank x"
      by auto
    have "acquired tr = [Loopback_device ?d] @ [Render_context ?c] @ objs"
      "released tr = rev objs @ [SDL_audio] @ [Render_context ?c] @ [Loopback_device ?d]
                     @ [SDL_library]"
      using play o(1,2) by (simp_all add: tr)
    with o(3,4) show ?thesis
      by (intro exI [of _ "[Loopback_device ?d]"] exI [of _ "[Render_context ?c]"]
          exI [of _ objs]) simp
  qed
qed

lemma main_resources:
  assumes "main K e = Some (Exit c, tr)" and "al_contract K e"
  shows "\<exists>lib aud dev ctx objs. acquired tr = lib @ aud @ dev @ ctx @ objs
           \<and> released tr = rev objs @ aud @ ctx @ dev @ lib
           \<and> (lib = [] \<or> lib = [SDL_library])
           \<and> (aud = [] \<or> aud = [SDL_audio])
           \<and> (dev = [] \<or> (\<exists>d. dev = [Loopback_device d]))
           \<and> (ctx = [] \<or> (\<exists>x. ctx = [Render_context x]))
           \<and> sorted_wrt (<) (map release_rank objs) \<and> (\<forall>x\<in>set objs. 4 \<le> release_rank x)"
proof -
  consider (noext) "ext_present e = 0"
    | (noinit) "ext_present e \<noteq> 0" "sdl_init_result e = - 1"
    | (noopen) "ext_present e \<noteq> 0" "sdl_init_result e \<noteq> - 1" "sdl_open_result e \<noteq> 0"
    | (noattrs) msg where "ext_present e \<noteq> 0" "sdl_init_result e \<noteq> - 1"
        "sdl_open_result e = 0" "set_attrs K (obtained e) = Inl msg"
    | (device) attrs where "ext_present e \<noteq> 0" "sdl_init_result e \<noteq> - 1"
        "sdl_open_result e = 0" "set_attrs K (obtained e) = Inr attrs"
    by (cases "set_attrs K (obtained e)") blast+
  then show ?thesis
  proof cases
    case noext
    with assms(1) have "acquired tr = []" "released tr = []"
      by (auto simp: main_def)
    then show ?thesis by simp
  next
    case noinit
    with assms(1) have "acquired tr = []" "released tr = []"
      by (auto simp: main_def)
    then show ?thesis by simp
  next
    case noopen
    with assms(1) have "acquired tr = [SDL_library] @ [] @ [] @ [] @ []"
      "released tr = rev [] @ [] @ [] @ [] @ [SDL_library]"
      by (auto simp: main_def)
    then show ?thesis by (intro exI [of _ "[SDL_library]"] exI [of _ "[]"]) simp
  next
    case noattrs
    from noattrs(4) have "acquired msg = []" "released msg = []"
      by (auto simp: set_attrs_def Let_def split: option.splits)
    with assms(1) noattrs have "acquired tr = [SDL_library] @ [SDL_audio] @ [] @ [] @ []"
      "released tr = rev [] @ [SDL_audio] @ [] @ [] @ [SDL_library]"
      by (auto simp: main_def error_label_eq)
    then show ?thesis
      by (intro exI [of _ "[SDL_library]"] exI [of _ "[SDL_audio]"] exI [of _ "[]"]) simp
  next
    case device
    with assms(1) obtain t where t: "main_device K e attrs = Some (Exit c, t)"
      and tr: "tr = [AlcIsExtensionPresent ''ALC_SOFT_loopback'' (ext_present e),
                     AlcGetProcAddress ''alcLoopbackOpenDeviceSOFT'',
                     AlcGetProcAddress ''alcIsRenderFormatSupportedSOFT'',
                     AlcGetProcAddress ''alcRenderSamplesSOFT'',
                     SDL_Init (sdl_init_result e),
                     SDL_OpenAudio (desired K) (sdl_open_result e)] @ t"
      by (auto simp: main_def emit_eq_Some)
    from main_device_resources [OF t assms(2)] obtain dev ctx objs
      where o: "acquired t = dev @ ctx @ objs"
        "released t = rev objs @ [SDL_audio] @ ctx @ dev @ [SDL_library]"
        "dev = [] \<or> (\<exists>d. dev = [Loopback_device d])"
        "ctx = [] \<or> (\<exists>x. ctx = [Render_context x])"
        "sorted_wrt (<) (map release_rank objs)" "\<forall>x\<in>set objs. 4 \<le> release_rank x"
      by blast
    have "acquired tr = [SDL_library] @ [SDL_audio] @ dev @ ctx @ objs"
      "released tr = rev objs @ [SDL_audio] @ ctx @ dev @ [SDL_library]"
      using device o(1,2) by (simp_all add: tr)
    with o(3-) show ?thesis
      by (intro exI [of _ "[SDL_library]"] exI [of _ "[SDL_audio]"] exI [of _ dev]
          exI [of _ ctx] exI [of _ objs]) simp
  qed
qed

lemma set_attrs_example:
  "set_attrs example_hdr (obtained example_env)
     = Inr [0 \<mapsto> 0x1990, 1 \<mapsto> 0x1501, 2 \<mapsto> 0x1991, 3 \<mapsto> 0x1402, 4 \<mapsto> 0x1007,
            5 \<mapsto> 44100, 6 \<mapsto> 0]"
  by (simp add: set_attrs_def channels_attr_def type_attr_def example_hdr_def example_env_def)

lemma al_contract_example: "al_contract example_hdr example_env"
  by (simp add: al_contract_def example_hdr_def example_env_def)

lemma main_play_example:
  "\<exists>t. main_play example_hdr example_env \<lparr>Device = 100, Context = 200, FrameSize = 4\<rparr>
         = Some (Exit 0, t)
     \<and> acquired t = [Buffer_object 1, Source_object 1]
     \<and> released t = [Source_object 1, Buffer_object 1, SDL_audio, Render_context 200,
                      Loopback_device 100, SDL_library]
     \<and> (\<exists>pre post. t = pre @ [AlDeleteSources 1, AlDeleteBuffers 1] @ post
           \<and> \<not> list_ex deletes_object pre)"
proof -
  have f: "source_poll example_env = example_poll" "gen_source example_env = 1"
    "source_error example_env = 0" "NDEBUG example_hdr = False" "AL_NO_ERROR example_hdr = 0"
    "AL_BUFFER example_hdr = 0x1009"
    by (simp_all add: example_env_def example_hdr_def)
  note p = poll_loop_example
  have c: "CreateSineWave example_hdr example_env
      = Some (1, [AlGenBuffers 1,
                  AlBufferData 1 0x1101
                    (\<lambda>j. if j < 44100 then Some (trunc_toward_zero (sine_value j)) else None)
                    88200 44100,
                  AlGetError 0])"
    by (simp add: CreateSineWave_eq example_env_def example_hdr_def)
  define t where "t = [SDL_PauseAudio 0, AlGenBuffers 1,
                  AlBufferData 1 0x1101
                    (\<lambda>j. if j < 44100 then Some (trunc_toward_zero (sine_value j)) else None)
                    88200 44100,
                  AlGetError 0, AlGenSources 1, AlSourcei 1 0x1009 1, AlGetError 0,
                  AlSourcePlay 1] @ example_polled
                @ [AlDeleteSources 1, AlDeleteBuffers 1] @ [SDL_PauseAudio 1, SDL_CloseAudio,
                   AlcDestroyContext 200, AlcCloseDevice 100, SDL_Quit]"
  have "main_play example_hdr example_env \<lparr>Device = 100, Context = 200, FrameSize = 4\<rparr>
         = Some (Exit 0, t)"
    unfolding main_play_def c by (simp add: p f t_def)
  moreover have "acquired t = [Buffer_object 1, Source_object 1]"
    "released t = [Source_object 1, Buffer_object 1, SDL_audio, Render_context 200,
                      Loopback_device 100, SDL_library]"
    by (simp_all add: t_def example_polled_def)
  moreover have "\<exists>pre post. t = pre @ [AlDeleteSources 1, AlDeleteBuffers 1] @ post
           \<and> \<not> list_ex deletes_object pre"
    unfolding t_def
    by (intro exI [of _ "[SDL_PauseAudio 0, AlGenBuffers 1,
                  AlBufferData 1 0x1101
                    (\<lambda>j. if j < 44100 then Some (trunc_toward_zero (sine_value j)) else None)
                    88200 44100,
                  AlGetError 0, AlGenSources 1, AlSourcei 1 0x1009 1, AlGetError 0,
                  AlSourcePlay 1] @ example_polled"]
        exI [of _ "[SDL_PauseAudio 1, SDL_CloseAudio,
                   AlcDestroyContext 200, AlcCloseDevice 100, SDL_Quit]"])
      (simp add: example_polled_def)
  ultimately show ?thesis by blast
qed

lemma main_example:
  "\<exists>tr. main example_hdr example_env = Some (Exit 0, tr)
     \<and> acquired tr = [SDL_library, SDL_audio, Loopback_device 100, Render_context 200,
                       Buffer_object 1, Source_object 1]
     \<and> released tr = [Source_object 1, Buffer_object 1, SDL_audio, Render_context 200,
                       Loopback_device 100, SDL_library]
     \<and> (\<exists>pre post. tr = pre @ [AlDeleteSources 1, AlDeleteBuffers 1] @ post
           \<and> \<not> list_ex deletes_object pre)"
proof -
  from main_play_example obtain t pre post where
    t: "main_play example_hdr example_env \<lparr>Device = 100, Context = 200, FrameSize = 4\<rparr>
         = Some (Exit 0, t)"
    "acquired t = [Buffer_object 1, Source_object 1]"
    "released t = [Source_object 1, Buffer_object 1, SDL_audio, Render_context 200,
                      Loopback_device 100, SDL_library]"
    "t = pre @ [AlDeleteSources 1, AlDeleteBuffers 1] @ post" "\<not> list_ex deletes_object pre"
    by blast
  define A :: "int c_array" where
    "A = [0 \<mapsto> 0x1990, 1 \<mapsto> 0x1501, 2 \<mapsto> 0x1991, 3 \<mapsto> 0x1402, 4 \<mapsto> 0x1007,
            5 \<mapsto> 44100, 6 \<mapsto> 0]"
  define dv where "dv = [AlcLoopbackOpenDeviceSOFT 100,
                 AlcIsRenderFormatSupportedSOFT 100 (rd A 5) (rd A 1) (rd A 3) 1,
                 AlcCreateContext 100 A 200, AlcMakeContextCurrent 200 1,
                 FramesToBytes 1 (rd A 1) (rd A 3) 4]"
  have e: "loopback_device example_env = 100" "created_context example_env = 200"
    "format_supported example_env = 1" "make_current example_env = 1"
    "frame_bytes example_env = 4" "ALC_FALSE example_hdr = 0"
    "ext_present example_env = 1" "sdl_init_result example_env = 0"
    "sdl_open_result example_env = 0"
    by (simp_all add: example_env_def example_hdr_def)
  have d: "main_device example_hdr example_env A = Some (Exit 0, dv @ t)"
    unfolding main_device_def Let_def by (simp add: e t(1) dv_def)
  define pr where "pr = [AlcIsExtensionPresent ''ALC_SOFT_loopback'' 1,
                     AlcGetProcAddress ''alcLoopbackOpenDeviceSOFT'',
                     AlcGetProcAddress ''alcIsRenderFormatSupportedSOFT'',
                     AlcGetProcAddress ''alcRenderSamplesSOFT'',
                     SDL_Init 0, SDL_OpenAudio (desired example_hdr) 0]"
  have sa: "set_attrs example_hdr (obtained example_env) = Inr A"
    by (simp only: set_attrs_example A_def)
  have m: "main example_hdr example_env = Some (Exit 0, pr @ dv @ t)"
    unfolding main_def sa by (simp add: e d pr_def)
  moreover have "acquired (pr @ dv @ t)
      = [SDL_library, SDL_audio, Loopback_device 100, Render_context 200,
         Buffer_object 1, Source_object 1]"
    "released (pr @ dv @ t) = [Source_object 1, Buffer_object 1, SDL_audio, Render_context 200,
                       Loopback_device 100, SDL_library]"
    by (simp_all add: t(2,3) pr_def dv_def)
  moreover have "pr @ dv @ t = (pr @ dv @ pre) @ [AlDeleteSources 1, AlDeleteBuffers 1] @ post"
    "\<not> list_ex deletes_object (pr @ dv @ pre)"
    using t(4,5) by (simp_all add: pr_def dv_def)
  ultimately show ?thesis by blast
qed

text \<open>
  C3 (amended). Whenever \<open>main\<close> returns, it has released every resource it acquired,
  each once. The order is the reverse of the order of acquisition except for the SDL audio
  stream: the source and the buffer go first, then the audio stream is closed, then the
  context is destroyed, then the device is closed, then SDL is shut down. Leaving the
  audio stream aside, the order is exactly the reverse one. The clean-up at \<open>error:\<close> of a
  session that has a device and no context closes the audio stream, closes the device and
  shuts SDL down, and makes no call to destroy a context. (OpenAL is taken to recognise,
  in \<open>alIsBuffer\<close>, the buffer name it has just generated.)
\<close>

theorem main_releases_acquired:
  assumes "al_contract K e" and "main K e = Some (Exit c, tr)"
  shows "mset (released tr) = mset (acquired tr)
     \<and> removeAll SDL_audio (released tr) = rev (removeAll SDL_audio (acquired tr))
     \<and> sorted_wrt (>) (map release_rank (released tr))
     \<and> (d \<noteq> 0 \<longrightarrow> error_label \<lparr>Device = d, Context = 0, FrameSize = n\<rparr>
            = Some (Exit 1, [SDL_CloseAudio, AlcCloseDevice d, SDL_Quit]))"
proof -
  from main_resources [OF assms(2,1)] obtain lib aud dev ctx objs
    where a: "acquired tr = lib @ aud @ dev @ ctx @ objs"
      and r: "released tr = rev objs @ aud @ ctx @ dev @ lib"
      and lib: "lib = [] \<or> lib = [SDL_library]"
      and aud: "aud = [] \<or> aud = [SDL_audio]"
      and dev: "dev = [] \<or> (\<exists>d. dev = [Loopback_device d])"
      and ctx: "ctx = [] \<or> (\<exists>x. ctx = [Render_context x])"
      and sorted: "sorted_wrt (<) (map release_rank objs)"
      and rank: "\<forall>x\<in>set objs. 4 \<le> release_rank x"
    by blast
  from rank have "SDL_audio \<notin> set objs" by auto
  then have keep: "removeAll SDL_audio objs = objs" "removeAll SDL_audio (rev objs) = rev objs"
    by simp_all
  have "mset (released tr) = mset (acquired tr)"
    by (simp add: a r)
  moreover have "removeAll SDL_audio (released tr) = rev (removeAll SDL_audio (acquired tr))"
    using lib aud dev ctx by (auto simp: a r keep)
  moreover have "sorted_wrt (>) (map release_rank (released tr))"
  proof -
    define A where "A = map release_rank (rev objs)"
    define B where "B = map release_rank (aud @ ctx @ dev @ lib)"
    have "sorted_wrt (>) A"
      using sorted unfolding A_def sorted_wrt_map sorted_wrt_rev .
    moreover have "sorted_wrt (>) B"
      using lib aud dev ctx unfolding B_def by auto
    moreover have "\<forall>y\<in>set B. y < 4"
      using lib aud dev ctx unfolding B_def by auto
    moreover have "\<forall>x\<in>set A. 4 \<le> x"
      using rank unfolding A_def by auto
    ultimately have "sorted_wrt (>) (A @ B)"
      unfolding sorted_wrt_append by fastforce
    moreover have "map release_rank (released tr) = A @ B"
      unfolding r A_def B_def by (simp only: map_append)
    ultimately show ?thesis by (simp only:)
  qed
  moreover have "d \<noteq> 0 \<longrightarrow> error_label \<lparr>Device = d, Context = 0, FrameSize = n\<rparr>
            = Some (Exit 1, [SDL_CloseAudio, AlcCloseDevice d, SDL_Quit])"
    by (simp add: error_label_eq)
  ultimately show ?thesis by blast
qed

theorem main_releases_acquired_witness:
  "al_contract example_hdr example_env
     \<and> (\<exists>tr. main example_hdr example_env = Some (Exit 0, tr)
          \<and> mset (released tr) = mset (acquired tr)
          \<and> released tr = [Source_object 1, Buffer_object 1, SDL_audio, Render_context 200,
                            Loopback_device 100, SDL_library]
          \<and> sorted_wrt (>) (map release_rank (released tr)))
     \<and> error_label \<lparr>Device = 100, Context = 0, FrameSize = 0\<rparr>
         = Some (Exit 1, [SDL_CloseAudio, AlcCloseDevice 100, SDL_Quit])"
proof -
  from main_example obtain tr where tr: "main example_hdr example_env = Some (Exit 0, tr)"
    "released tr = [Source_object 1, Buffer_object 1, SDL_audio, Render_context 200,
                    Loopback_device 100, SDL_library]"
    by blast
  from main_releases_acquired [OF al_contract_example tr(1), of 100 0]
  have "mset (released tr) = mset (acquired tr)"
    "sorted_wrt (>) (map release_rank (released tr))"
    "error_label \<lparr>Device = 100, Context = 0, FrameSize = 0\<rparr>
         = Some (Exit 1, [SDL_CloseAudio, AlcCloseDevice 100, SDL_Quit])"
    by simp_all
  with tr al_contract_example show ?thesis by blast
qed

text \<open>
  C3 as stated fails on the run in which everything succeeds: the audio stream is acquired
  before the device and the context, and released before them.
\<close>

theorem main_reverse_order_counterexample:
  "\<exists>tr. main example_hdr example_env = Some (Exit 0, tr)
     \<and> acquired tr = [SDL_library, SDL_audio, Loopback_device 100, Render_context 200,
                       Buffer_object 1, Source_object 1]
     \<and> released tr = [Source_object 1, Buffer_object 1, SDL_audio, Render_context 200,
                       Loopback_device 100, SDL_library]
     \<and> released tr \<noteq> rev (acquired tr)"
proof -
  from main_example obtain tr where tr: "main example_hdr example_env = Some (Exit 0, tr)"
    "acquired tr = [SDL_library, SDL_audio, Loopback_device 100, Render_context 200,
                       Buffer_object 1, Source_object 1]"
    "released tr = [Source_object 1, Buffer_object 1, SDL_audio, Render_context 200,
                    Loopback_device 100, SDL_library]"
    by blast
  then have "released tr \<noteq> rev (acquired tr)" by simp
  with tr show ?thesis by blast
qed

subsection \<open>How a run ends\<close>

lemma outcome_emit: "map_option fst (emit tr rest) = map_option fst rest"
  by (cases rest) (auto simp: emit_def)

lemma main_play_outcome:
  "map_option fst (main_play K e playback) =
     (if buffer_error e \<noteq> AL_NO_ERROR K \<or> gen_buffer e = 0 then Some (Exit 1)
      else if \<not> NDEBUG K \<and> source_error e \<noteq> AL_NO_ERROR K then Some Abort
      else map_option (\<lambda>polled. Exit 0) (poll_loop K (source_poll e) (gen_source e) 0 []))"
  by (auto simp: main_play_def CreateSineWave_eq Let_def outcome_emit split: option.splits)

lemma main_device_outcome:
  "map_option fst (main_device K e attrs) =
     (if loopback_device e = 0 \<or> format_supported e = ALC_FALSE K
         \<or> created_context e = 0 \<or> make_current e = ALC_FALSE K
      then Some (Exit 1)
      else map_option fst
             (main_play K e \<lparr>Device = loopback_device e, Context = created_context e,
                             FrameSize = frame_bytes e\<rparr>))"
  by (simp add: main_device_def Let_def outcome_emit error_label_eq)

lemma set_attrs_Inl_iff:
  "(\<exists>msg. set_attrs K ob = Inl msg) \<longleftrightarrow> channels_attr K ob = None \<or> type_attr K ob = None"
  by (auto simp: set_attrs_def Let_def split: option.splits)

lemma main_outcome:
  "map_option fst (main K e) =
     (if setup_fails K e then Some (Exit 1)
      else if \<not> NDEBUG K \<and> source_error e \<noteq> AL_NO_ERROR K then Some Abort
      else map_option (\<lambda>polled. Exit 0) (poll_loop K (source_poll e) (gen_source e) 0 []))"
proof (cases "set_attrs K (obtained e)")
  case (Inl msg)
  then have "channels_attr K (obtained e) = None \<or> type_attr K (obtained e) = None"
    using set_attrs_Inl_iff [of K "obtained e"] by auto
  then have "setup_fails K e" by (auto simp: setup_fails_def)
  with Inl show ?thesis
    by (simp add: main_def outcome_emit error_label_eq del: map_option_eq_Some)
next
  case (Inr attrs)
  then have "\<not> (channels_attr K (obtained e) = None \<or> type_attr K (obtained e) = None)"
    using set_attrs_Inl_iff [of K "obtained e"] by auto
  then obtain ca ta where "channels_attr K (obtained e) = Some ca"
    "type_attr K (obtained e) = Some ta"
    by auto
  with Inr show ?thesis
    by (simp add: main_def outcome_emit main_device_outcome main_play_outcome setup_fails_def
        del: map_option_eq_Some)
qed

text \<open>
  C5. \<open>main\<close> takes no arguments (a run depends only on what the calls return). It
  returns 1 whenever the extension is missing, \<open>SDL_Init\<close> or \<open>SDL_OpenAudio\<close> fails, the
  channel count or the format is not handled, the device cannot be opened, the render
  format is not supported, the context cannot be created or made current, or the buffer
  cannot be created. When none of these happens, the source is set up without error and
  the polling loop ends, it returns 0. It returns no other status.
\<close>

theorem main_exit_code:
  "(setup_fails K e \<longrightarrow> (\<exists>tr. main K e = Some (Exit 1, tr)))
   \<and> (\<not> setup_fails K e \<and> (NDEBUG K \<or> source_error e = AL_NO_ERROR K)
        \<and> (\<exists>n. fst (source_poll e n) \<noteq> AL_NO_ERROR K \<or> snd (source_poll e n) \<noteq> AL_PLAYING K)
      \<longrightarrow> (\<exists>tr. main K e = Some (Exit 0, tr)))
   \<and> (\<forall>c tr. main K e = Some (Exit c, tr) \<longrightarrow> c = (if setup_fails K e then 1 else 0))"
proof (intro conjI impI allI)
  assume "setup_fails K e"
  then have "map_option fst (main K e) = Some (Exit 1)"
    by (simp add: main_outcome)
  then show "\<exists>tr. main K e = Some (Exit 1, tr)" by auto
next
  assume a: "\<not> setup_fails K e \<and> (NDEBUG K \<or> source_error e = AL_NO_ERROR K)
        \<and> (\<exists>n. fst (source_poll e n) \<noteq> AL_NO_ERROR K \<or> snd (source_poll e n) \<noteq> AL_PLAYING K)"
  then have "\<not> (\<forall>j. keeps_polling K (source_poll e j))"
    by (auto simp: keeps_polling_def)
  then obtain polled where "poll_loop K (source_poll e) (gen_source e) 0 [] = Some polled"
    using poll_loop_None_iff [of K "source_poll e" "gen_source e"] by auto
  with a have "map_option fst (main K e) = Some (Exit 0)"
    by (auto simp: main_outcome)
  then show "\<exists>tr. main K e = Some (Exit 0, tr)" by auto
next
  fix c tr
  assume "main K e = Some (Exit c, tr)"
  then have "map_option fst (main K e) = Some (Exit c)" by simp
  then show "c = (if setup_fails K e then 1 else 0)"
    by (auto simp: main_outcome split: if_splits)
qed

lemma setup_ok_example: "\<not> setup_fails example_hdr example_env"
  by (simp add: setup_fails_def channels_attr_def type_attr_def example_hdr_def example_env_def)

theorem main_exit_code_witness:
  "\<not> setup_fails example_hdr example_env
     \<and> source_error example_env = AL_NO_ERROR example_hdr
     \<and> snd (source_poll example_env 2) \<noteq> AL_PLAYING example_hdr
     \<and> (\<exists>tr. main example_hdr example_env = Some (Exit 0, tr))
     \<and> setup_fails example_hdr (example_env\<lparr>ext_present := 0\<rparr>)
     \<and> (\<exists>tr. main example_hdr (example_env\<lparr>ext_present := 0\<rparr>) = Some (Exit 1, tr))"
proof -
  have a: "source_error example_env = AL_NO_ERROR example_hdr"
    "snd (source_poll example_env 2) \<noteq> AL_PLAYING example_hdr"
    by (simp_all add: example_env_def example_hdr_def example_poll_def)
  have f: "setup_fails example_hdr (example_env\<lparr>ext_present := 0\<rparr>)"
    by (simp add: setup_fails_def)
  from a setup_ok_example main_exit_code [of example_hdr example_env]
  have "\<exists>tr. main example_hdr example_env = Some (Exit 0, tr)" by blast
  moreover from f main_exit_code [of example_hdr "example_env\<lparr>ext_present := 0\<rparr>"]
  have "\<exists>tr. main example_hdr (example_env\<lparr>ext_present := 0\<rparr>) = Some (Exit 1, tr)" by blast
  ultimately show ?thesis using a f setup_ok_example by blast
qed

text \<open>
  C4. When the channel count obtained from SDL is neither 1 nor 2, or the format is none of
  the four handled, lines 139 to 168 end in \<open>goto error\<close>, \<open>main\<close> returns 1, and its run
  contains no call of \<open>alcLoopbackOpenDeviceSOFT\<close>.
\<close>

theorem main_unsupported_format:
  assumes "channels (obtained e) \<notin> {1, 2}
           \<or> format (obtained e) \<notin> {AUDIO_U8 K, AUDIO_S8 K, AUDIO_U16SYS K, AUDIO_S16SYS K}"
  shows "\<exists>msg tr. set_attrs K (obtained e) = Inl msg \<and> main K e = Some (Exit 1, tr)
           \<and> \<not> list_ex opens_device tr"
proof -
  from assms have "channels_attr K (obtained e) = None \<or> type_attr K (obtained e) = None"
    by (auto simp: channels_attr_def type_attr_def)
  then obtain msg where msg: "set_attrs K (obtained e) = Inl msg"
    using set_attrs_Inl_iff [of K "obtained e"] by auto
  then have quiet: "\<not> list_ex opens_device msg"
    by (auto simp: set_attrs_def Let_def split: option.splits)
  have "\<exists>tr. main K e = Some (Exit 1, tr) \<and> \<not> list_ex opens_device tr"
    using quiet by (simp add: main_def msg error_label_eq)
  with msg show ?thesis by blast
qed

theorem main_unsupported_format_witness:
  "channels (obtained (example_env\<lparr>obtained := (obtained example_env)\<lparr>channels := 3\<rparr>\<rparr>)) = 3
     \<and> (\<exists>tr. main example_hdr (example_env\<lparr>obtained := (obtained example_env)\<lparr>channels := 3\<rparr>\<rparr>)
               = Some (Exit 1, tr)
          \<and> \<not> list_ex opens_device tr)"
proof -
  let ?e = "example_env\<lparr>obtained := (obtained example_env)\<lparr>channels := 3\<rparr>\<rparr>"
  have c: "channels (obtained ?e) = 3" by simp
  then have "channels (obtained ?e) \<notin> {1, 2}
           \<or> format (obtained ?e) \<notin> {AUDIO_U8 example_hdr, AUDIO_S8 example_hdr,
                                       AUDIO_U16SYS example_hdr, AUDIO_S16SYS example_hdr}"
    by simp
  from main_unsupported_format [OF this] c show ?thesis by blast
qed

text \<open>
  C8. When \<open>alGetError\<close> reports an error after the buffer was generated and filled,
  \<open>CreateSineWave\<close> returns 0; it deletes the buffer when \<open>alIsBuffer\<close> says there is one,
  as its last call, and deletes nothing otherwise, so that what it has acquired it has
  released. When no error is reported it returns the generated name, which is not 0, and
  keeps the buffer. (OpenAL is taken to recognise the name it has generated, and to
  generate a name other than 0 unless it records an error.)
\<close>

theorem CreateSineWave_cleanup:
  assumes "al_contract K e"
  shows "(buffer_error e \<noteq> AL_NO_ERROR K \<longrightarrow>
            (\<exists>calls. CreateSineWave K e = Some (0, calls)
               \<and> released calls = acquired calls
               \<and> (is_buffer e \<noteq> 0 \<longrightarrow> last calls = AlDeleteBuffers (gen_buffer e))
               \<and> (is_buffer e = 0 \<longrightarrow> \<not> list_ex deletes_object calls)))
       \<and> (buffer_error e = AL_NO_ERROR K \<longrightarrow>
            (\<exists>calls. CreateSineWave K e = Some (gen_buffer e, calls) \<and> gen_buffer e \<noteq> 0
               \<and> acquired calls = [Buffer_object (gen_buffer e)] \<and> released calls = []))"
  using assms by (auto simp: CreateSineWave_eq al_contract_def Let_def)

theorem CreateSineWave_cleanup_witness:
  "al_contract example_hdr example_env
     \<and> buffer_error example_env = AL_NO_ERROR example_hdr
     \<and> (\<exists>calls. CreateSineWave example_hdr example_env = Some (1, calls)
           \<and> released calls = [])
     \<and> al_contract example_hdr (example_env\<lparr>buffer_error := 0xA005\<rparr>)
     \<and> buffer_error (example_env\<lparr>buffer_error := 0xA005\<rparr>) \<noteq> AL_NO_ERROR example_hdr
     \<and> is_buffer (example_env\<lparr>buffer_error := 0xA005\<rparr>) \<noteq> 0
     \<and> (\<exists>calls. CreateSineWave example_hdr (example_env\<lparr>buffer_error := 0xA005\<rparr>)
                  = Some (0, calls)
           \<and> released calls = acquired calls \<and> last calls = AlDeleteBuffers 1)"
proof -
  let ?e = "example_env\<lparr>buffer_error := 0xA005\<rparr>"
  have ok: "buffer_error example_env = AL_NO_ERROR example_hdr" "gen_buffer example_env = 1"
    by (simp_all add: example_env_def example_hdr_def)
  have c: "al_contract example_hdr ?e"
    by (simp add: al_contract_def example_hdr_def example_env_def)
  have bad: "buffer_error ?e \<noteq> AL_NO_ERROR example_hdr" "is_buffer ?e \<noteq> 0" "gen_buffer ?e = 1"
    by (simp_all add: example_hdr_def example_env_def)
  from CreateSineWave_cleanup [OF al_contract_example] ok
  have "\<exists>calls. CreateSineWave example_hdr example_env = Some (1, calls) \<and> released calls = []"
    by auto
  moreover from CreateSineWave_cleanup [OF c] bad
  have "\<exists>calls. CreateSineWave example_hdr ?e = Some (0, calls)
           \<and> released calls = acquired calls \<and> last calls = AlDeleteBuffers 1"
    by auto
  ultimately show ?thesis using al_contract_example ok(1) c bad(1,2) by blast
qed

subsection \<open>The end of playback\<close>

lemma main_play_Exit_0:
  assumes "main_play K e playback = Some (Exit 0, tr)"
  shows "\<exists>pre post. tr = pre @ [AlDeleteSources (gen_source e), AlDeleteBuffers (gen_buffer e)]
                            @ post
           \<and> \<not> list_ex deletes_object pre \<and> \<not> list_ex deletes_object post"
proof -
  have ok: "buffer_error e = AL_NO_ERROR K" "gen_buffer e \<noteq> 0"
    using assms main_play_outcome [of K e playback] by (auto split: if_splits)
  define calls where "calls =
     [AlGenBuffers (gen_buffer e),
      AlBufferData (gen_buffer e) (AL_FORMAT_MONO16 K)
        (\<lambda>j. if j < 44100 then Some (trunc_toward_zero (sine_value j)) else None) 88200 44100,
      AlGetError (buffer_error e)]"
  have cs: "CreateSineWave K e = Some (gen_buffer e, calls)"
    using ok by (simp add: CreateSineWave_eq calls_def)
  from assms obtain polled where
    p: "poll_loop K (source_poll e) (gen_source e) 0 [] = Some polled"
    and tr: "tr = (SDL_PauseAudio 0 # calls
                   @ [AlGenSources (gen_source e),
                      AlSourcei (gen_source e) (AL_BUFFER K) (gen_buffer e)]
                   @ (if NDEBUG K then [] else [AlGetError (source_error e)])
                   @ [AlSourcePlay (gen_source e)] @ polled)
                  @ [AlDeleteSources (gen_source e), AlDeleteBuffers (gen_buffer e)]
                  @ [SDL_PauseAudio 1, SDL_CloseAudio, AlcDestroyContext (Context playback),
                     AlcCloseDevice (Device playback), SDL_Quit]"
    unfolding main_play_def cs using ok
    by (auto simp: Let_def emit_eq_Some split: if_splits option.splits)
  have "\<not> list_ex deletes_object (SDL_PauseAudio 0 # calls
                   @ [AlGenSources (gen_source e),
                      AlSourcei (gen_source e) (AL_BUFFER K) (gen_buffer e)]
                   @ (if NDEBUG K then [] else [AlGetError (source_error e)])
                   @ [AlSourcePlay (gen_source e)] @ polled)"
    using poll_loop_harmless(4) [OF p] by (simp add: calls_def)
  moreover have "\<not> list_ex deletes_object
      [SDL_PauseAudio 1, SDL_CloseAudio, AlcDestroyContext (Context playback),
       AlcCloseDevice (Device playback), SDL_Quit]"
    by simp
  ultimately show ?thesis using tr by blast
qed

lemma main_device_Exit_0:
  assumes "main_device K e attrs = Some (Exit 0, tr)"
  shows "\<exists>pre post. tr = pre @ [AlDeleteSources (gen_source e), AlDeleteBuffers (gen_buffer e)]
                            @ post
           \<and> \<not> list_ex deletes_object pre \<and> \<not> list_ex deletes_object post"
proof -
  let ?pb = "\<lparr>Device = loopback_device e, Context = created_context e,
              FrameSize = frame_bytes e\<rparr>"
  have ok: "loopback_device e \<noteq> 0" "format_supported e \<noteq> ALC_FALSE K"
    "created_context e \<noteq> 0" "make_current e \<noteq> ALC_FALSE K"
    using assms main_device_outcome [of K e attrs] by (auto split: if_splits)
  with assms obtain t where t: "main_play K e ?pb = Some (Exit 0, t)"
    and tr: "tr = [AlcLoopbackOpenDeviceSOFT (loopback_device e),
                   AlcIsRenderFormatSupportedSOFT (loopback_device e) (rd attrs 5) (rd attrs 1)
                     (rd attrs 3) (format_supported e),
                   AlcCreateContext (loopback_device e) attrs (created_context e),
                   AlcMakeContextCurrent (created_context e) (make_current e),
                   FramesToBytes 1 (rd attrs 1) (rd attrs 3) (frame_bytes e)] @ t"
    by (auto simp: main_device_def emit_eq_Some)
  from main_play_Exit_0 [OF t] obtain pre post
    where "t = pre @ [AlDeleteSources (gen_source e), AlDeleteBuffers (gen_buffer e)] @ post"
      "\<not> list_ex deletes_object pre" "\<not> list_ex deletes_object post"
    by blast
  then show ?thesis
    unfolding tr
    by (intro exI [of _ "[AlcLoopbackOpenDeviceSOFT (loopback_device e),
                   AlcIsRenderFormatSupportedSOFT (loopback_device e) (rd attrs 5) (rd attrs 1)
                     (rd attrs 3) (format_supported e),
                   AlcCreateContext (loopback_device e) attrs (created_context e),
                   AlcMakeContextCurrent (created_context e) (make_current e),
                   FramesToBytes 1 (rd attrs 1) (rd attrs 3) (frame_bytes e)] @ pre"]
        exI [of _ post]) simp
qed

text \<open>
  C9. In a run of \<open>main\<close> that returns 0 the source is deleted and then, by the next call,
  the buffer; nothing is deleted before or after.
\<close>

theorem main_deletes_source_first:
  assumes "main K e = Some (Exit 0, tr)"
  shows "\<exists>pre post. tr = pre @ [AlDeleteSources (gen_source e), AlDeleteBuffers (gen_buffer e)]
                            @ post
           \<and> \<not> list_ex deletes_object pre \<and> \<not> list_ex deletes_object post"
proof -
  have "\<not> setup_fails K e"
    using assms main_outcome [of K e] by (auto split: if_splits)
  then have ok: "ext_present e \<noteq> 0" "sdl_init_result e \<noteq> - 1" "sdl_open_result e = 0"
    "\<not> (channels_attr K (obtained e) = None \<or> type_attr K (obtained e) = None)"
    by (auto simp: setup_fails_def)
  from ok(4) obtain attrs where attrs: "set_attrs K (obtained e) = Inr attrs"
    using set_attrs_Inl_iff [of K "obtained e"] by (cases "set_attrs K (obtained e)") auto
  define pr where "pr = [AlcIsExtensionPresent ''ALC_SOFT_loopback'' (ext_present e),
                         AlcGetProcAddress ''alcLoopbackOpenDeviceSOFT'',
                         AlcGetProcAddress ''alcIsRenderFormatSupportedSOFT'',
                         AlcGetProcAddress ''alcRenderSamplesSOFT'',
                         SDL_Init (sdl_init_result e),
                         SDL_OpenAudio (desired K) (sdl_open_result e)]"
  from assms ok(1-3) obtain t where t: "main_device K e attrs = Some (Exit 0, t)"
    and tr: "tr = pr @ t"
    by (auto simp: main_def attrs emit_eq_Some pr_def)
  from main_device_Exit_0 [OF t] obtain pre post
    where p: "t = pre @ [AlDeleteSources (gen_source e), AlDeleteBuffers (gen_buffer e)] @ post"
      "\<not> list_ex deletes_object pre" "\<not> list_ex deletes_object post"
    by blast
  have "tr = (pr @ pre) @ [AlDeleteSources (gen_source e), AlDeleteBuffers (gen_buffer e)] @ post"
    by (simp add: tr p(1))
  moreover have "\<not> list_ex deletes_object (pr @ pre)"
    using p(2) by (simp add: pr_def)
  ultimately show ?thesis using p(3) by blast
qed

theorem main_deletes_source_first_witness:
  "\<exists>tr pre post. main example_hdr example_env = Some (Exit 0, tr)
     \<and> tr = pre @ [AlDeleteSources 1, AlDeleteBuffers 1] @ post
     \<and> \<not> list_ex deletes_object pre \<and> \<not> list_ex deletes_object post"
proof -
  from main_example obtain tr where tr: "main example_hdr example_env = Some (Exit 0, tr)"
    by blast
  have "gen_source example_env = 1" "gen_buffer example_env = 1"
    by (simp_all add: example_env_def)
  with main_deletes_source_first [OF tr] tr show ?thesis by auto
qed

end
